theory Spec2Isabelle
  imports Complex_Main
begin

section \<open>Python values and built-ins used by the program\<close>

text \<open>
  The two scripts \<^verbatim>\<open>yt_streamlit.py\<close> and \<^verbatim>\<open>yt_streamlit1.py\<close> are embedded
  function by function. Conventions of the embedding:
  \<^item> a Python \<^verbatim>\<open>str\<close> is a \<open>string\<close>; the characters the program inspects
    (\<^verbatim>\<open>v = / _ -\<close>, digits, letters) are ASCII;
  \<^item> a Python \<^verbatim>\<open>int\<close> is an \<open>int\<close>; a Python \<^verbatim>\<open>float\<close> is a \<open>real\<close>, so that
    \<^verbatim>\<open>a / b\<close> is the exact quotient (rounding and the range of floats are not part of
    the embedding);
  \<^item> a raised exception is the left summand of a result \<open>py_error + 'a\<close>.
\<close>

datatype py_error =
    ValueError
  | KeyError
  | IndexError
  | HttpError
  | ISO8601Error
  | OverflowError

subsection \<open>The built-in \<^verbatim>\<open>int(...)\<close> on a string\<close>

definition is_digit :: "char \<Rightarrow> bool" where
  "is_digit c = (48 \<le> (of_char c :: nat) \<and> (of_char c :: nat) \<le> 57)"

definition digit_val :: "char \<Rightarrow> nat" where
  "digit_val c = (of_char c :: nat) - 48"

definition is_space :: "char \<Rightarrow> bool" where
  "is_space c = ((of_char c :: nat) \<in> {9, 10, 11, 12, 13, 32})"

text \<open>
  \<^verbatim>\<open>int(s)\<close> strips white space, reads an optional sign and then decimal digits, a
  single underscore allowed between two digits, and raises \<^verbatim>\<open>ValueError\<close> on anything
  else. Digits and white space outside ASCII, which Python accepts as well, are not part
  of the embedding.
\<close>

fun int_digits :: "nat \<Rightarrow> string \<Rightarrow> nat option" where
  "int_digits acc [] = Some acc"
| "int_digits acc (c # cs) =
     (if is_digit c then int_digits (acc * 10 + digit_val c) cs
      else if c = CHR ''_'' then
        (case cs of
           [] \<Rightarrow> None
         | d # ds \<Rightarrow> if is_digit d then int_digits acc cs else None)
      else None)"

definition int_unsigned :: "string \<Rightarrow> nat option" where
  "int_unsigned s =
     (case s of
        [] \<Rightarrow> None
      | c # cs \<Rightarrow> if is_digit c then int_digits 0 s else None)"

definition strip :: "string \<Rightarrow> string" where
  "strip s = rev (dropWhile is_space (rev (dropWhile is_space s)))"

definition py_int :: "string \<Rightarrow> py_error + int" where
  "py_int s =
     (let t = strip s;
          neg = (take 1 t = ''-'');
          body = (if take 1 t = ''-'' \<or> take 1 t = ''+'' then drop 1 t else t)
      in case int_unsigned body of
           None \<Rightarrow> Inl ValueError
         | Some n \<Rightarrow> Inr (if neg then - int n else int n))"

section \<open>Helper functions of \<^verbatim>\<open>yt_streamlit1.py\<close>\<close>

subsection \<open>\<^verbatim>\<open>extract_video_id\<close>\<close>

text \<open>
  \<^verbatim>\<open>regex = r"(?:v=|\/)([0-9A-Za-z_-]{11}).*"\<close>,
  \<^verbatim>\<open>match = re.search(regex, url)\<close>,
  \<^verbatim>\<open>return match.group(1) if match else None\<close>.
\<close>

definition is_id_char :: "char \<Rightarrow> bool" where
  "is_id_char c =
     ((48 \<le> (of_char c :: nat) \<and> (of_char c :: nat) \<le> 57)
      \<or> (65 \<le> (of_char c :: nat) \<and> (of_char c :: nat) \<le> 90)
      \<or> (97 \<le> (of_char c :: nat) \<and> (of_char c :: nat) \<le> 122)
      \<or> c = CHR ''_'' \<or> c = CHR ''-'')"

text \<open>The group \<^verbatim>\<open>([0-9A-Za-z_-]{11})\<close> at the head of a string.\<close>

definition id_group :: "string \<Rightarrow> string option" where
  "id_group s =
     (if 11 \<le> length s \<and> list_all is_id_char (take 11 s) then Some (take 11 s) else None)"

text \<open>
  The whole pattern anchored at the head of a string. The two alternatives start with
  different characters, so at most one applies; the trailing \<^verbatim>\<open>.*\<close> matches the empty
  string and never makes a match fail.
\<close>

definition match_here :: "string \<Rightarrow> string option" where
  "match_here s =
     (if take 2 s = ''v='' then id_group (drop 2 s)
      else if take 1 s = ''/'' then id_group (drop 1 s)
      else None)"

text \<open>\<^verbatim>\<open>re.search\<close>: the match at the leftmost position that has one.\<close>

fun re_search :: "string \<Rightarrow> string option" where
  "re_search [] = None"
| "re_search (c # cs) =
     (case match_here (c # cs) of
        Some g \<Rightarrow> Some g
      | None \<Rightarrow> re_search cs)"

definition extract_video_id :: "string \<Rightarrow> string option" where
  "extract_video_id url = re_search url"

subsection \<open>\<^verbatim>\<open>calc_engagement_rate\<close>\<close>

text \<open>
  \<^verbatim>\<open>int(stats.get(key, 0))\<close> on the \<^verbatim>\<open>statistics\<close> dictionary of a video resource,
  whose values are strings.
\<close>

definition stat_int :: "(string \<rightharpoonup> string) \<Rightarrow> string \<Rightarrow> py_error + int" where
  "stat_int stats key = (case stats key of None \<Rightarrow> Inr 0 | Some s \<Rightarrow> py_int s)"

definition calc_engagement_rate :: "(string \<rightharpoonup> string) \<Rightarrow> py_error + real" where
  "calc_engagement_rate stats =
     (case stat_int stats ''viewCount'' of
        Inl e \<Rightarrow> Inl e
      | Inr views \<Rightarrow>
     (case stat_int stats ''likeCount'' of
        Inl e \<Rightarrow> Inl e
      | Inr likes \<Rightarrow>
     (case stat_int stats ''commentCount'' of
        Inl e \<Rightarrow> Inl e
      | Inr comments \<Rightarrow>
          Inr (if views > 0 then real_of_int (likes + comments) / real_of_int views else 0))))"

subsection \<open>\<^verbatim>\<open>parse_duration\<close>\<close>

text \<open>
  \<^verbatim>\<open>isodate.parse_duration\<close> belongs to the third-party package \<^verbatim>\<open>isodate\<close>. It matches
  the string against the designator format
  \<^verbatim>\<open>[+-]P[nY][nM][nW][nD][T[nH][nM][nS]]\<close>, where each \<^verbatim>\<open>n\<close> is
  \<^verbatim>\<open>[0-9]+([,.][0-9]+)?\<close>, at least one character follows \<^verbatim>\<open>P\<close>, and a final line feed
  is tolerated (the pattern ends in \<^verbatim>\<open>$\<close>). On a match it builds a \<^verbatim>\<open>timedelta\<close> from
  weeks, days, hours, minutes and seconds (inside a \<^verbatim>\<open>Duration\<close> when years or months are
  given, whose \<^verbatim>\<open>total_seconds\<close> is that of the \<^verbatim>\<open>timedelta\<close>) and negates it after a
  leading \<^verbatim>\<open>-\<close>. Without a match, a string that starts with \<^verbatim>\<open>P\<close> is read in the
  alternative format: the package's \<^verbatim>\<open>parse_datetime\<close> is applied to what follows \<^verbatim>\<open>P\<close>,
  and day, hour, minute, second and microsecond of the result make the duration; any
  other string raises \<^verbatim>\<open>ISO8601Error\<close>.
\<close>

text \<open>
  A number \<^verbatim>\<open>[0-9]+([,.][0-9]+)?\<close> is kept as the pair of its digits read as one
  numeral and the count of digits after the separator: \<^verbatim>\<open>1.50\<close> is \<open>(150, 2)\<close>.
\<close>

definition dec_val :: "string \<Rightarrow> nat" where
  "dec_val ds = foldl (\<lambda>a c. a * 10 + digit_val c) 0 ds"

definition component_value :: "nat \<times> nat \<Rightarrow> real" where
  "component_value n = real (fst n) / 10 ^ snd n"

text \<open>One optional component \<^verbatim>\<open>([0-9]+([,.][0-9]+)?X)?\<close>: its number and the remaining text.\<close>

definition take_field :: "char \<Rightarrow> string \<Rightarrow> (nat \<times> nat) \<times> string" where
  "take_field x s =
     (let ip = takeWhile is_digit s; r = dropWhile is_digit s
      in if ip = [] then ((0, 0), s)
         else if take 1 r = [x] then ((dec_val ip, 0), drop 1 r)
         else if take 1 r = ''.'' \<or> take 1 r = '','' then
           (let fp = takeWhile is_digit (drop 1 r); r2 = dropWhile is_digit (drop 1 r)
            in if fp \<noteq> [] \<and> take 1 r2 = [x] then ((dec_val (ip @ fp), length fp), drop 1 r2)
               else ((0, 0), s))
         else ((0, 0), s))"

text \<open>
  The components after \<^verbatim>\<open>P\<close>: weeks, days, hours, minutes and seconds (years and
  months are parsed and play no part in the total seconds).
\<close>

type_synonym components = "(nat \<times> nat) \<times> (nat \<times> nat) \<times> (nat \<times> nat) \<times> (nat \<times> nat) \<times> (nat \<times> nat)"

definition designator_body :: "string \<Rightarrow> components option" where
  "designator_body s =
     (let (years, a) = take_field CHR ''Y'' s;
          (months, b) = take_field CHR ''M'' a;
          (weeks, c) = take_field CHR ''W'' b;
          (days, d) = take_field CHR ''D'' c
      in if d = [] then Some (weeks, days, (0, 0), (0, 0), (0, 0))
         else if take 1 d = ''T'' then
           let (hours, e) = take_field CHR ''H'' (drop 1 d);
               (minutes, f) = take_field CHR ''M'' e;
               (seconds, g) = take_field CHR ''S'' f
           in if g = [] then Some (weeks, days, hours, minutes, seconds) else None
         else None)"

text \<open>
  A string in the designator format: whether it is negated, and its components.
\<close>

definition designator_fields :: "string \<Rightarrow> (bool \<times> components) option" where
  "designator_fields s =
     (let s1 = (if s \<noteq> [] \<and> last s = CHR 0x0A then butlast s else s);
          neg = (take 1 s1 = ''-'');
          s2 = (if take 1 s1 = ''-'' \<or> take 1 s1 = ''+'' then drop 1 s1 else s1)
      in if take 1 s2 \<noteq> ''P'' \<or> drop 1 s2 = [] then None
         else
           case designator_body (drop 1 s2) of
             None \<Rightarrow> None
           | Some comps \<Rightarrow> Some (neg, comps))"

text \<open>
  \<^verbatim>\<open>timedelta(days=..., hours=..., minutes=..., seconds=..., weeks=...)\<close> keeps a whole
  number of microseconds, rounding half to even, and raises \<^verbatim>\<open>OverflowError\<close> beyond
  999999999 days; \<^verbatim>\<open>total_seconds()\<close> is that number of microseconds divided by
  \<^verbatim>\<open>10**6\<close>.
\<close>

definition round_half_even :: "real \<Rightarrow> int" where
  "round_half_even x =
     (let f = \<lfloor>x\<rfloor>; r = x - real_of_int f
      in if r < 1 / 2 then f
         else if 1 / 2 < r then f + 1
         else if even f then f
         else f + 1)"

definition timedelta_microseconds :: "components \<Rightarrow> int" where
  "timedelta_microseconds comps =
     (case comps of (weeks, days, hours, minutes, seconds) \<Rightarrow>
        round_half_even
          ((component_value weeks * 604800 + component_value days * 86400
             + component_value hours * 3600 + component_value minutes * 60
             + component_value seconds) * 1000000))"

text \<open>
  The value of \<^verbatim>\<open>datetime.datetime\<close> that \<^verbatim>\<open>parse_datetime\<close> returns. What
  \<^verbatim>\<open>parse_datetime\<close> returns on a string, a value or an exception, is a parameter of the
  embedding.
\<close>

record datetime =
  dt_year :: nat
  dt_month :: nat
  dt_day :: nat
  dt_hour :: nat
  dt_minute :: nat
  dt_second :: nat
  dt_microsecond :: nat

text \<open>
  \<^verbatim>\<open>isodate.parse_duration(s).total_seconds()\<close>: the seconds, or the exception raised on
  the way.
\<close>

definition isodate_total_seconds :: "(string \<Rightarrow> py_error + datetime) \<Rightarrow> string \<Rightarrow> py_error + real" where
  "isodate_total_seconds parse_datetime s =
     (case designator_fields s of
        Some (neg, comps) \<Rightarrow>
          let us = timedelta_microseconds comps
          in if 999999999 < us div 86400000000 then Inl OverflowError
             else if neg then
               (if 999999999 < (us + 86399999999) div 86400000000 then Inl OverflowError
                else Inr (- (real_of_int us / 1000000)))
             else Inr (real_of_int us / 1000000)
      | None \<Rightarrow>
          if take 1 s = ''P'' then
            (case parse_datetime (drop 1 s) of
               Inl e \<Rightarrow> Inl e
             | Inr durdt \<Rightarrow>
                 Inr (real (dt_day durdt * 86400 + dt_hour durdt * 3600 + dt_minute durdt * 60
                        + dt_second durdt)
                      + real (dt_microsecond durdt) / 1000000))
          else Inl ISO8601Error)"

text \<open>
  \<^verbatim>\<open>try: dur = isodate.parse_duration(duration); return dur.total_seconds() / 60\<close>,
  \<^verbatim>\<open>except: return 0\<close>.
\<close>

definition parse_duration :: "(string \<Rightarrow> py_error + datetime) \<Rightarrow> string \<Rightarrow> real" where
  "parse_duration parse_datetime duration =
     (case isodate_total_seconds parse_datetime duration of
        Inl e \<Rightarrow> 0
      | Inr seconds \<Rightarrow> seconds / 60)"

subsection \<open>The feature record\<close>

text \<open>
  The dictionary built by \<^verbatim>\<open>get_video_stats\<close>, the dictionaries given to
  \<^verbatim>\<open>pd.DataFrame\<close> and the row of \<^verbatim>\<open>yt_streamlit.py\<close> all have the same ten keys, the
  columns the model was trained on. Whole-number entries of the two numeric columns that
  may also hold a float are embedded into \<open>real\<close>.
\<close>

record feature_record =
  views :: int
  likes :: int
  comments :: int
  watch_time_minutes :: real
  video_length_minutes :: real
  engagement_rate :: real
  subscribers :: int
  category :: string
  country :: string
  device :: string

subsection \<open>The YouTube Data API\<close>

text \<open>
  The responses of \<^verbatim>\<open>videos().list(...).execute()\<close> and
  \<^verbatim>\<open>channels().list(...).execute()\<close>, with the parts the program reads. A part or key
  that may be missing from the JSON is optional; the \<^verbatim>\<open>statistics\<close>, \<^verbatim>\<open>snippet\<close> and
  \<^verbatim>\<open>contentDetails\<close> objects map keys to strings, as the API delivers them.
\<close>

record video_resource =
  v_statistics :: "(string \<rightharpoonup> string) option"
  v_snippet :: "(string \<rightharpoonup> string) option"
  v_contentDetails :: "(string \<rightharpoonup> string) option"

record channel_resource =
  ch_statistics :: "(string \<rightharpoonup> string) option"
  ch_snippet :: "(string \<rightharpoonup> string) option"

text \<open>
  The service: \<^verbatim>\<open>build("youtube", "v3", developerKey=API_KEY)\<close> may raise, and so may
  each \<^verbatim>\<open>execute()\<close>; a response carries its \<^verbatim>\<open>items\<close> list, if any.
\<close>

record youtube_api =
  build_error :: "py_error option"
  videos_list :: "string \<Rightarrow> py_error + video_resource list option"
  channels_list :: "string \<Rightarrow> py_error + channel_resource list option"

text \<open>Sequencing of steps that may raise.\<close>

definition bind_err :: "py_error + 'a \<Rightarrow> ('a \<Rightarrow> py_error + 'b) \<Rightarrow> py_error + 'b" where
  "bind_err m f = (case m of Inl e \<Rightarrow> Inl e | Inr x \<Rightarrow> f x)"

text \<open>\<^verbatim>\<open>d[key]\<close> on a dictionary: \<^verbatim>\<open>KeyError\<close> when the key is missing.\<close>

definition subscript :: "'a option \<Rightarrow> py_error + 'a" where
  "subscript entry = (case entry of None \<Rightarrow> Inl KeyError | Some x \<Rightarrow> Inr x)"

subsection \<open>\<^verbatim>\<open>get_video_stats\<close>\<close>

text \<open>
  Lines 71 to 84: \<^verbatim>\<open>subscribers\<close> and \<^verbatim>\<open>country\<close>. \<^verbatim>\<open>if channel_id:\<close> holds for a
  non-empty string, \<^verbatim>\<open>if channel_response.get("items"):\<close> for a non-empty list.
\<close>

definition channel_info :: "youtube_api \<Rightarrow> string option \<Rightarrow> py_error + (int \<times> string)" where
  "channel_info api channel_id =
     (case channel_id of
        None \<Rightarrow> Inr (0, ''US'')
      | Some cid \<Rightarrow>
          if cid = [] then Inr (0, ''US'')
          else bind_err (channels_list api cid) (\<lambda>channel_response.
            case channel_response of
              None \<Rightarrow> Inr (0, ''US'')
            | Some [] \<Rightarrow> Inr (0, ''US'')
            | Some (info # others) \<Rightarrow>
                bind_err (subscript (ch_statistics info)) (\<lambda>cstats.
                bind_err (stat_int cstats ''subscriberCount'') (\<lambda>subs.
                bind_err (subscript (ch_snippet info)) (\<lambda>csnippet.
                  Inr (subs, case csnippet ''country'' of None \<Rightarrow> ''US'' | Some c \<Rightarrow> c))))))"

text \<open>
  The body of the \<^verbatim>\<open>try\<close> block: \<open>Inl e\<close> when an exception \<open>e\<close> is raised in it,
  \<open>Inr None\<close> for the \<^verbatim>\<open>return None\<close> of line 63, \<open>Inr (Some data)\<close> for
  \<^verbatim>\<open>return data\<close>.
\<close>

definition try_body ::
  "(string \<Rightarrow> py_error + datetime) \<Rightarrow> youtube_api \<Rightarrow> string \<Rightarrow> py_error + feature_record option" where
  "try_body parse_datetime api video_id =
     (case build_error api of
        Some e \<Rightarrow> Inl e
      | None \<Rightarrow>
          bind_err (videos_list api video_id) (\<lambda>video_response.
            case video_response of
              None \<Rightarrow> Inr None
            | Some [] \<Rightarrow> Inr None
            | Some (video # others) \<Rightarrow>
                bind_err (subscript (v_statistics video)) (\<lambda>stats.
                bind_err (subscript (v_snippet video)) (\<lambda>snippet.
                bind_err (subscript (v_contentDetails video)) (\<lambda>details.
                bind_err (subscript (details ''duration'')) (\<lambda>duration.
                bind_err (channel_info api (snippet ''channelId'')) (\<lambda>(subs, ctry).
                bind_err (stat_int stats ''viewCount'') (\<lambda>v.
                bind_err (stat_int stats ''likeCount'') (\<lambda>l.
                bind_err (stat_int stats ''commentCount'') (\<lambda>c.
                bind_err (stat_int stats ''viewCount'') (\<lambda>w.
                bind_err (calc_engagement_rate stats) (\<lambda>rate.
                  Inr (Some \<lparr>
                    views = v,
                    likes = l,
                    comments = c,
                    watch_time_minutes = real_of_int (w * 5),
                    video_length_minutes = parse_duration parse_datetime duration,
                    engagement_rate = rate,
                    subscribers = subs,
                    category = (case snippet ''categoryId'' of None \<Rightarrow> ''22'' | Some i \<Rightarrow> i),
                    country = ctry,
                    device = ''Mobile'' \<rparr>)))))))))))))"

text \<open>What the script shows to the operator, one constructor for each message.\<close>

datatype notice =
    Error_api py_error
  | Error_invalid_url
  | Error_fetch_failed
  | Info_video_id string
  | Success_fetched
  | Show_stats feature_record
  | Success_revenue real

text \<open>
  \<^verbatim>\<open>get_video_stats\<close>: the \<^verbatim>\<open>try\<close> block under \<^verbatim>\<open>except Exception as e\<close>, which shows
  \<^verbatim>\<open>st.error(f"API Error: {e}")\<close> and returns \<^verbatim>\<open>None\<close>. The result is the returned
  value and the messages shown.
\<close>

definition get_video_stats ::
  "(string \<Rightarrow> py_error + datetime) \<Rightarrow> youtube_api \<Rightarrow> string \<Rightarrow> feature_record option \<times> notice list" where
  "get_video_stats parse_datetime api video_id =
     (case try_body parse_datetime api video_id of
        Inl e \<Rightarrow> (None, [Error_api e])
      | Inr data \<Rightarrow> (data, []))"

section \<open>The pages of \<^verbatim>\<open>yt_streamlit1.py\<close>\<close>

text \<open>
  Streamlit runs the script from top to bottom on every interaction. A run is embedded
  as a function of the widget values of that run and of \<^verbatim>\<open>st.session_state\<close>, giving
  the session state after the run and the messages shown. The loaded model is the
  parameter \<open>predictor\<close>: \<^verbatim>\<open>model.predict(data)[0]\<close> on the one-row frame. Page layout,
  titles and the notice about the API key are left out.
\<close>

record session_state =
  video_stats :: "feature_record option"

text \<open>
  \<^verbatim>\<open>st.selectbox(label, options, index)\<close>: the option the operator picked, the option at
  \<^verbatim>\<open>index\<close> when nothing was picked. Every call of the script passes an index inside the
  list.
\<close>

definition selectbox :: "string list \<Rightarrow> nat \<Rightarrow> string option \<Rightarrow> string" where
  "selectbox options index choice =
     (case choice of
        None \<Rightarrow> options ! index
      | Some v \<Rightarrow> if v \<in> set options then v else options ! index)"

text \<open>\<^verbatim>\<open>options.index(x)\<close>, used by the script only under \<^verbatim>\<open>x in options\<close>.\<close>

fun index_of :: "string list \<Rightarrow> string \<Rightarrow> nat" where
  "index_of [] x = 0"
| "index_of (y # ys) x = (if y = x then 0 else Suc (index_of ys x))"

subsection \<open>Manual Input\<close>

record manual_input =
  in_views :: int
  in_likes :: int
  in_comments :: int
  in_watch_time_minutes :: int
  in_video_length_minutes :: int
  in_engagement_rate :: real
  in_subscribers :: int
  in_category :: string
  in_country :: string
  in_device :: string
  submit_manual :: bool

text \<open>
  What the widgets of the form can deliver: \<^verbatim>\<open>min_value=0\<close> (\<^verbatim>\<open>0.0\<close> for the engagement
  rate) on every number input, one of the listed options from every select box.
\<close>

definition manual_input_ok :: "manual_input \<Rightarrow> bool" where
  "manual_input_ok inp =
     (0 \<le> in_views inp \<and> 0 \<le> in_likes inp \<and> 0 \<le> in_comments inp
      \<and> 0 \<le> in_watch_time_minutes inp \<and> 0 \<le> in_video_length_minutes inp
      \<and> 0 \<le> in_engagement_rate inp \<and> 0 \<le> in_subscribers inp
      \<and> in_category inp \<in> set [''Education'', ''Entertainment'', ''Gaming'', ''Tech'', ''Music'', ''Lifestyle'']
      \<and> in_country inp \<in> set [''IN'', ''CA'', ''UK'', ''US'', ''DE'', ''AU'']
      \<and> in_device inp \<in> set [''Mobile'', ''Desktop'', ''Tablet'', ''TV''])"

text \<open>Lines 134 to 145: the dictionary given to \<^verbatim>\<open>pd.DataFrame\<close>.\<close>

definition manual_data :: "manual_input \<Rightarrow> feature_record" where
  "manual_data inp =
     \<lparr> views = in_views inp,
       likes = in_likes inp,
       comments = in_comments inp,
       watch_time_minutes = real_of_int (in_watch_time_minutes inp),
       video_length_minutes = real_of_int (in_video_length_minutes inp),
       engagement_rate = in_engagement_rate inp,
       subscribers = in_subscribers inp,
       category = in_category inp,
       country = in_country inp,
       device = in_device inp \<rparr>"

definition manual_mode :: "(feature_record \<Rightarrow> real) \<Rightarrow> manual_input \<Rightarrow> notice list" where
  "manual_mode predictor inp =
     (if submit_manual inp then [Success_revenue (predictor (manual_data inp))] else [])"

subsection \<open>YouTube Link Input\<close>

text \<open>Lines 170 to 183: \<^verbatim>\<open>category_map.get(cat_id, "Entertainment")\<close>.\<close>

definition category_map :: "(string \<times> string) list" where
  "category_map =
     [(''1'', ''Entertainment''),
      (''2'', ''Tech''),
      (''10'', ''Music''),
      (''20'', ''Gaming''),
      (''22'', ''Lifestyle''),
      (''23'', ''Entertainment''),
      (''24'', ''Entertainment''),
      (''27'', ''Education''),
      (''28'', ''Tech'')]"

definition translate_category :: "string \<Rightarrow> string" where
  "translate_category cat_id =
     (case map_of category_map cat_id of
        None \<Rightarrow> ''Entertainment''
      | Some label \<Rightarrow> label)"

record link_input =
  url :: string
  submit_link :: bool
  country_choice :: "string option"
  category_choice :: "string option"
  device_choice :: "string option"
  predict_button :: bool

text \<open>
  Lines 160 to 188, \<^verbatim>\<open>if submit_link:\<close>. \<^verbatim>\<open>if not video_id\<close> holds for \<^verbatim>\<open>None\<close> and for the
  empty string; \<^verbatim>\<open>if stats:\<close> holds for every returned dictionary, which has ten keys.
\<close>

definition fetch_step ::
  "(string \<Rightarrow> py_error + datetime) \<Rightarrow> youtube_api \<Rightarrow> link_input \<Rightarrow> session_state
     \<Rightarrow> session_state \<times> notice list" where
  "fetch_step parse_datetime api inp state =
     (if \<not> submit_link inp then (state, [])
      else
        case extract_video_id (url inp) of
          None \<Rightarrow> (state, [Error_invalid_url])
        | Some video_id \<Rightarrow>
            if video_id = [] then (state, [Error_invalid_url])
            else
              let (stats, shown) = get_video_stats parse_datetime api video_id
              in case stats of
                   None \<Rightarrow> (state, Info_video_id video_id # shown @ [Error_fetch_failed])
                 | Some d \<Rightarrow>
                     (state\<lparr>video_stats := Some (d\<lparr>category := translate_category (category d)\<rparr>)\<rparr>,
                      Info_video_id video_id # shown @ [Success_fetched]))"

definition countries :: "string list" where
  "countries = [''US'', ''IN'', ''UK'', ''CA'', ''AU'', ''DE'']"

definition categories :: "string list" where
  "categories = [''Education'', ''Entertainment'', ''Gaming'', ''Tech'', ''Music'', ''Lifestyle'']"

definition devices :: "string list" where
  "devices = [''Mobile'', ''Desktop'', ''Tablet'', ''TV'']"

text \<open>
  Lines 199 to 223: the three select boxes, prefilled from the fetched record, and the
  assignments \<^verbatim>\<open>stats["country"] = country\<close>, \<^verbatim>\<open>stats["category"] = category\<close>,
  \<^verbatim>\<open>stats["device"] = device\<close>.
\<close>

definition customize :: "link_input \<Rightarrow> feature_record \<Rightarrow> feature_record" where
  "customize inp stats =
     (let ctry = selectbox countries
            (if country stats \<notin> set countries then 0 else index_of countries (country stats))
            (country_choice inp);
          cat = selectbox categories
            (if category stats \<in> set categories then index_of categories (category stats) else 1)
            (category_choice inp);
          dev = selectbox devices 0 (device_choice inp)
      in stats\<lparr>country := ctry, category := cat, device := dev\<rparr>)"

text \<open>
  Lines 191 to 228, \<^verbatim>\<open>if "video_stats" in st.session_state:\<close>. \<^verbatim>\<open>stats\<close> is the very
  dictionary held by the session state, so the assignments to it change the stored
  record; \<^verbatim>\<open>st.json(stats)\<close> shows it before they are made.
\<close>

definition customize_step ::
  "(feature_record \<Rightarrow> real) \<Rightarrow> link_input \<Rightarrow> session_state \<Rightarrow> session_state \<times> notice list" where
  "customize_step predictor inp state =
     (case video_stats state of
        None \<Rightarrow> (state, [])
      | Some stats \<Rightarrow>
          (state\<lparr>video_stats := Some (customize inp stats)\<rparr>,
           Show_stats stats #
             (if predict_button inp then [Success_revenue (predictor (customize inp stats))]
              else [])))"

definition link_mode ::
  "(string \<Rightarrow> py_error + datetime) \<Rightarrow> youtube_api \<Rightarrow> (feature_record \<Rightarrow> real) \<Rightarrow> link_input
     \<Rightarrow> session_state \<Rightarrow> session_state \<times> notice list" where
  "link_mode parse_datetime api predictor inp state =
     (let (fetched, shown1) = fetch_step parse_datetime api inp state;
          (edited, shown2) = customize_step predictor inp fetched
      in (edited, shown1 @ shown2))"

subsection \<open>One run of the script\<close>

datatype mode = Manual_Input manual_input | YouTube_Link_Input link_input

definition script_run ::
  "(string \<Rightarrow> py_error + datetime) \<Rightarrow> youtube_api \<Rightarrow> (feature_record \<Rightarrow> real) \<Rightarrow> mode
     \<Rightarrow> session_state \<Rightarrow> session_state \<times> notice list" where
  "script_run parse_datetime api predictor m state =
     (case m of
        Manual_Input inp \<Rightarrow> (state, manual_mode predictor inp)
      | YouTube_Link_Input inp \<Rightarrow> link_mode parse_datetime api predictor inp state)"

section \<open>\<^verbatim>\<open>yt_streamlit.py\<close>\<close>

record basic_input =
  b_views :: int
  b_likes :: int
  b_comments :: int
  b_watch_time :: real
  b_video_length :: real
  b_subscribers :: int
  b_category :: string
  b_device :: string
  b_country :: string
  b_predict :: bool

text \<open>
  Line 24, the derived feature:
  \<^verbatim>\<open>engagement_rate = (likes + comments) / views if views > 0 else 0\<close>.
\<close>

definition derived_engagement_rate :: "int \<Rightarrow> int \<Rightarrow> int \<Rightarrow> real" where
  "derived_engagement_rate v l c =
     (if v > 0 then real_of_int (l + c) / real_of_int v else 0)"

text \<open>Lines 27 to 31: the row given to \<^verbatim>\<open>pd.DataFrame\<close>.\<close>

definition basic_data :: "basic_input \<Rightarrow> feature_record" where
  "basic_data inp =
     \<lparr> views = b_views inp,
       likes = b_likes inp,
       comments = b_comments inp,
       watch_time_minutes = b_watch_time inp,
       video_length_minutes = b_video_length inp,
       engagement_rate = derived_engagement_rate (b_views inp) (b_likes inp) (b_comments inp),
       subscribers = b_subscribers inp,
       category = b_category inp,
       country = b_country inp,
       device = b_device inp \<rparr>"

definition basic_script :: "(feature_record \<Rightarrow> real) \<Rightarrow> basic_input \<Rightarrow> notice list" where
  "basic_script predictor inp =
     (if b_predict inp then [Success_revenue (predictor (basic_data inp))] else [])"

section \<open>Notions used in the statements\<close>

text \<open>
  The claim about identifier extraction speaks of eleven identifier characters that
  follow \<^verbatim>\<open>v=\<close> or a path separator. \<open>pattern_at u j\<close> says that position \<open>j\<close> of \<open>u\<close>
  is such a place: \<^verbatim>\<open>v=\<close> or \<^verbatim>\<open>/\<close> starts there and eleven identifier characters
  follow.
\<close>

definition id_head :: "string \<Rightarrow> bool" where
  "id_head s = (11 \<le> length s \<and> list_all is_id_char (take 11 s))"

definition pattern_head :: "string \<Rightarrow> bool" where
  "pattern_head s =
     (take 2 s = ''v='' \<and> id_head (drop 2 s) \<or> take 1 s = ''/'' \<and> id_head (drop 1 s))"

definition pattern_at :: "string \<Rightarrow> nat \<Rightarrow> bool" where
  "pattern_at u j = pattern_head (drop j u)"

text \<open>
  The decimal numeral of a natural number, the form in which the API delivers a counter
  (\<^verbatim>\<open>"viewCount": "1523"\<close>).
\<close>

fun decimal :: "nat \<Rightarrow> string" where
  "decimal n =
     (if n < 10 then [char_of (48 + n)]
      else decimal (n div 10) @ [char_of (48 + n mod 10)])"

declare decimal.simps [simp del]

text \<open>
  The country that the channel data of a video gives, if the data is complete: the video
  names a channel, the channel query returns an item, and the item's snippet has a
  country.
\<close>

definition channel_country :: "youtube_api \<Rightarrow> (string \<rightharpoonup> string) \<Rightarrow> string option" where
  "channel_country api snippet =
     (case snippet ''channelId'' of
        None \<Rightarrow> None
      | Some cid \<Rightarrow>
          if cid = [] then None
          else
            (case channels_list api cid of
               Inl e \<Rightarrow> None
             | Inr None \<Rightarrow> None
             | Inr (Some []) \<Rightarrow> None
             | Inr (Some (info # others)) \<Rightarrow>
                 (case ch_snippet info of
                    None \<Rightarrow> None
                  | Some csnippet \<Rightarrow> csnippet ''country'')))"

section \<open>Concrete inputs\<close>

text \<open>
  A submission of the manual form of \<^verbatim>\<open>yt_streamlit1.py\<close>: 100 views, 10 likes,
  5 comments, the engagement-rate field left at its initial value.
\<close>

definition manual_example :: manual_input where
  "manual_example =
     \<lparr> in_views = 100, in_likes = 10, in_comments = 5, in_watch_time_minutes = 0,
       in_video_length_minutes = 0, in_engagement_rate = 0, in_subscribers = 0,
       in_category = ''Education'', in_country = ''IN'', in_device = ''Mobile'',
       submit_manual = True \<rparr>"

text \<open>
  The durations of the concrete runs below are in the designator format or do not start
  with \<^verbatim>\<open>P\<close>, so that the package does not call \<^verbatim>\<open>parse_datetime\<close> on them. The runs
  are stated with a \<^verbatim>\<open>parse_datetime\<close> that raises on every string.
\<close>

definition no_datetime :: "string \<Rightarrow> py_error + datetime" where
  "no_datetime s = Inl ISO8601Error"

text \<open>
  A service that knows three videos: one with complete video and channel data, one
  without a channel identifier, and one whose statistics and snippet are nearly empty.
\<close>

definition example_statistics :: "string \<rightharpoonup> string" where
  "example_statistics =
     map_of [(''viewCount'', ''200''), (''likeCount'', ''10''), (''commentCount'', ''5'')]"

definition example_snippet :: "string \<rightharpoonup> string" where
  "example_snippet =
     map_of [(''channelId'', ''UC38IQsAvIsxxjztdMZQtwHA''), (''categoryId'', ''10'')]"

definition example_details :: "string \<rightharpoonup> string" where
  "example_details = map_of [(''duration'', ''PT5M30S'')]"

definition example_video :: video_resource where
  "example_video =
     \<lparr> v_statistics = Some example_statistics,
       v_snippet = Some example_snippet,
       v_contentDetails = Some example_details \<rparr>"

definition example_channel_statistics :: "string \<rightharpoonup> string" where
  "example_channel_statistics = map_of [(''subscriberCount'', ''1000'')]"

definition example_channel_snippet :: "string \<rightharpoonup> string" where
  "example_channel_snippet = map_of [(''country'', ''IN'')]"

definition example_channel :: channel_resource where
  "example_channel =
     \<lparr> ch_statistics = Some example_channel_statistics,
       ch_snippet = Some example_channel_snippet \<rparr>"

definition music_statistics :: "string \<rightharpoonup> string" where
  "music_statistics = map_of [(''viewCount'', ''40''), (''likeCount'', ''3'')]"

definition music_snippet :: "string \<rightharpoonup> string" where
  "music_snippet = map_of [(''categoryId'', ''10'')]"

definition music_video :: video_resource where
  "music_video =
     \<lparr> v_statistics = Some music_statistics,
       v_snippet = Some music_snippet,
       v_contentDetails = Some example_details \<rparr>"

definition bare_statistics :: "string \<rightharpoonup> string" where
  "bare_statistics = map_of [(''likeCount'', ''10''), (''commentCount'', ''5'')]"

definition bare_video :: video_resource where
  "bare_video =
     \<lparr> v_statistics = Some bare_statistics,
       v_snippet = Some Map.empty,
       v_contentDetails = Some example_details \<rparr>"

definition example_api :: youtube_api where
  "example_api =
     \<lparr> build_error = None,
       videos_list = (\<lambda>i.
         if i = ''dQw4w9WgXcQ'' then Inr (Some [example_video])
         else if i = ''musicvideo1'' then Inr (Some [music_video])
         else if i = ''bare_video1'' then Inr (Some [bare_video])
         else Inr (Some [])),
       channels_list = (\<lambda>i.
         if i = ''UC38IQsAvIsxxjztdMZQtwHA'' then Inr (Some [example_channel])
         else Inr (Some [])) \<rparr>"

text \<open>A service whose every query is refused, as when the quota is used up.\<close>

definition quota_api :: youtube_api where
  "quota_api =
     \<lparr> build_error = None,
       videos_list = (\<lambda>i. Inl HttpError),
       channels_list = (\<lambda>i. Inl HttpError) \<rparr>"

definition example_stats :: feature_record where
  "example_stats =
     \<lparr> views = 200, likes = 10, comments = 5, watch_time_minutes = 1000,
       video_length_minutes = 11 / 2, engagement_rate = 3 / 40, subscribers = 1000,
       category = ''10'', country = ''IN'', device = ''Mobile'' \<rparr>"

definition music_stats :: feature_record where
  "music_stats =
     \<lparr> views = 40, likes = 3, comments = 0, watch_time_minutes = 200,
       video_length_minutes = 11 / 2, engagement_rate = 3 / 40, subscribers = 0,
       category = ''10'', country = ''US'', device = ''Mobile'' \<rparr>"

definition bare_stats :: feature_record where
  "bare_stats =
     \<lparr> views = 0, likes = 10, comments = 5, watch_time_minutes = 0,
       video_length_minutes = 11 / 2, engagement_rate = 0, subscribers = 0,
       category = ''22'', country = ''US'', device = ''Mobile'' \<rparr>"

text \<open>
  Two interactions on the link page: the operator submits an address, then presses the
  prediction button with the select boxes left as they are. The predictor of the runs
  is a stand-in for the loaded model.
\<close>

definition fetch_click :: link_input where
  "fetch_click =
     \<lparr> url = ''https://www.youtube.com/watch?v=dQw4w9WgXcQ'', submit_link = True,
       country_choice = None, category_choice = None, device_choice = None,
       predict_button = False \<rparr>"

definition predict_click :: link_input where
  "predict_click =
     \<lparr> url = ''https://www.youtube.com/watch?v=dQw4w9WgXcQ'', submit_link = False,
       country_choice = None, category_choice = None, device_choice = None,
       predict_button = True \<rparr>"

definition example_predictor :: "feature_record \<Rightarrow> real" where
  "example_predictor r = real_of_int (views r) / 1000"

definition fresh_session :: session_state where
  "fresh_session = \<lparr> video_stats = None \<rparr>"

section \<open>Identifier extraction\<close>

subsection \<open>Auxiliary facts\<close>

lemma id_group_Some:
  assumes "id_group s = Some g"
  shows "length g = 11 \<and> list_all is_id_char g \<and> (\<exists>post. s = g @ post)"
proof -
  from assms have len: "11 \<le> length s" and all: "list_all is_id_char (take 11 s)"
    and g: "g = take 11 s"
    by (auto simp: id_group_def split: if_splits)
  have "s = g @ drop 11 s" using g by simp
  then have "\<exists>post. s = g @ post" ..
  moreover have "length g = 11" using len g by simp
  ultimately show ?thesis using all g by simp
qed

lemma match_here_Some:
  assumes "match_here s = Some g"
  shows "length g = 11 \<and> list_all is_id_char g \<and> (\<exists>pre post. s = pre @ g @ post)"
proof (cases "take 2 s = ''v=''")
  case True
  with assms have "id_group (drop 2 s) = Some g" by (simp add: match_here_def)
  from id_group_Some [OF this] obtain post where
    p: "length g = 11" "list_all is_id_char g" "drop 2 s = g @ post" by blast
  have "s = take 2 s @ g @ post" using p(3) by (metis append_take_drop_id)
  with p show ?thesis by blast
next
  case False
  with assms have sl: "take 1 s = ''/''" and "id_group (drop 1 s) = Some g"
    by (auto simp: match_here_def split: if_splits)
  from id_group_Some [OF this(2)] obtain post where
    p: "length g = 11" "list_all is_id_char g" "drop 1 s = g @ post" by blast
  have "s = take 1 s @ g @ post" using p(3) by (metis append_take_drop_id)
  with p show ?thesis by blast
qed

lemma re_search_Some:
  "re_search s = Some g \<Longrightarrow>
     length g = 11 \<and> list_all is_id_char g \<and> (\<exists>pre post. s = pre @ g @ post)"
proof (induction s)
  case Nil
  then show ?case by simp
next
  case (Cons c cs)
  show ?case
  proof (cases "match_here (c # cs)")
    case (Some h)
    with Cons.prems have "h = g" by simp
    with Some match_here_Some show ?thesis by blast
  next
    case None
    with Cons.prems have "re_search cs = Some g" by simp
    from Cons.IH [OF this] obtain pre post where
      p: "length g = 11" "list_all is_id_char g" "cs = pre @ g @ post" by blast
    have "c # cs = (c # pre) @ g @ post" using p(3) by simp
    with p show ?thesis by blast
  qed
qed

lemma sep_exclusive: "take 2 s = ''v='' \<Longrightarrow> take 1 s \<noteq> ''/''"
  by (cases s) auto

lemma match_here_None_iff: "match_here s = None \<longleftrightarrow> \<not> pattern_head s"
  using sep_exclusive [of s]
  by (auto simp: match_here_def pattern_head_def id_head_def id_group_def)

lemma re_search_skip:
  "n \<le> length s \<Longrightarrow> \<forall>j<n. \<not> pattern_at s j \<Longrightarrow> re_search s = re_search (drop n s)"
proof (induction s arbitrary: n)
  case Nil
  then show ?case by simp
next
  case (Cons c cs)
  show ?case
  proof (cases n)
    case 0
    then show ?thesis by simp
  next
    case (Suc m)
    with Cons.prems have "\<not> pattern_at (c # cs) 0" by blast
    then have none: "match_here (c # cs) = None"
      by (simp add: pattern_at_def match_here_None_iff)
    have "\<forall>j<m. \<not> pattern_at cs j"
    proof (intro allI impI)
      fix j assume "j < m"
      then have "Suc j < n" using Suc by simp
      with Cons.prems have "\<not> pattern_at (c # cs) (Suc j)" by blast
      then show "\<not> pattern_at cs j" by (simp add: pattern_at_def)
    qed
    moreover have "m \<le> length cs" using Cons.prems Suc by simp
    ultimately have "m \<le> length cs \<and> (\<forall>j<m. \<not> pattern_at cs j)" by simp
    then have "re_search cs = re_search (drop m cs)" using Cons.IH by blast
    with none Suc show ?thesis by simp
  qed
qed

lemma re_search_None:
  assumes "\<forall>j<length s. \<not> pattern_at s j"
  shows "re_search s = None"
proof -
  have "re_search s = re_search (drop (length s) s)"
    using assms by (intro re_search_skip) auto
  then show ?thesis by simp
qed

lemma match_here_sep:
  assumes "sep = ''v='' \<or> sep = ''/''" "length g = 11" "list_all is_id_char g"
  shows "match_here (sep @ g @ post) = Some g"
  using assms by (auto simp: match_here_def id_group_def)

lemma re_search_head:
  assumes "match_here s = Some g"
  shows "re_search s = Some g"
  using assms by (cases s) (auto simp: match_here_def)

lemma re_search_leftmost:
  assumes "sep = ''v='' \<or> sep = ''/''" "length g = 11" "list_all is_id_char g"
    and "\<forall>j<length pre. \<not> pattern_at (pre @ sep @ g @ post) j"
  shows "re_search (pre @ sep @ g @ post) = Some g"
proof -
  have "re_search (pre @ sep @ g @ post) = re_search (drop (length pre) (pre @ sep @ g @ post))"
    using assms(4) by (intro re_search_skip) auto
  also have "\<dots> = re_search (sep @ g @ post)" by simp
  also have "\<dots> = Some g"
    using assms(1-3) by (intro re_search_head match_here_sep)
  finally show ?thesis .
qed

lemma all_below: "list_all P [0..<n] \<Longrightarrow> \<forall>j<n. P j"
  by (simp add: list_all_iff)

subsection \<open>The leftmost place decides\<close>

text \<open>
  C3. When \<^verbatim>\<open>v=\<close> or \<^verbatim>\<open>/\<close> followed by eleven identifier characters \<open>g\<close> occurs in
  the string and no earlier position of the string is such a place, \<^verbatim>\<open>extract_video_id\<close>
  returns exactly \<open>g\<close>; when the string has no such place at all, it returns \<^verbatim>\<open>None\<close>;
  on \<^verbatim>\<open>https://www.youtube.com/watch?v=dQw4w9WgXcQ\<close> it returns \<^verbatim>\<open>dQw4w9WgXcQ\<close>. The
  function is total: no input makes it raise.
\<close>

theorem extract_video_id_leftmost:
  "((sep = ''v='' \<or> sep = ''/'') \<and> length g = 11 \<and> list_all is_id_char g
      \<and> (\<forall>j<length pre. \<not> pattern_at (pre @ sep @ g @ post) j)
     \<longrightarrow> extract_video_id (pre @ sep @ g @ post) = Some g)
   \<and> ((\<forall>j<length u. \<not> pattern_at u j) \<longrightarrow> extract_video_id u = None)
   \<and> extract_video_id ''https://www.youtube.com/watch?v=dQw4w9WgXcQ'' = Some ''dQw4w9WgXcQ''"
proof (intro conjI impI)
  assume "(sep = ''v='' \<or> sep = ''/'') \<and> length g = 11 \<and> list_all is_id_char g
      \<and> (\<forall>j<length pre. \<not> pattern_at (pre @ sep @ g @ post) j)"
  then show "extract_video_id (pre @ sep @ g @ post) = Some g"
    unfolding extract_video_id_def by (intro re_search_leftmost) auto
next
  assume "\<forall>j<length u. \<not> pattern_at u j"
  then show "extract_video_id u = None"
    unfolding extract_video_id_def by (rule re_search_None)
next
  show "extract_video_id ''https://www.youtube.com/watch?v=dQw4w9WgXcQ'' = Some ''dQw4w9WgXcQ''"
    by code_simp
qed

text \<open>
  The theorem at a short link, at a text without any place, and at the empty string.
\<close>

theorem extract_video_id_leftmost_witness:
  "list_all (\<lambda>j. \<not> pattern_at (''https://youtu.be'' @ ''/'' @ ''dQw4w9WgXcQ'' @ ''?t=1'') j)
      [0..<length ''https://youtu.be'']
   \<and> length ''dQw4w9WgXcQ'' = 11 \<and> list_all is_id_char ''dQw4w9WgXcQ''
   \<and> extract_video_id (''https://youtu.be'' @ ''/'' @ ''dQw4w9WgXcQ'' @ ''?t=1'') = Some ''dQw4w9WgXcQ''
   \<and> list_all (\<lambda>j. \<not> pattern_at ''not a link'' j) [0..<length ''not a link'']
   \<and> extract_video_id ''not a link'' = None
   \<and> extract_video_id [] = None"
proof -
  have a: "list_all (\<lambda>j. \<not> pattern_at (''https://youtu.be'' @ ''/'' @ ''dQw4w9WgXcQ'' @ ''?t=1'') j)
             [0..<length ''https://youtu.be'']"
    by code_simp
  then have a': "\<forall>j<length ''https://youtu.be''.
      \<not> pattern_at (''https://youtu.be'' @ ''/'' @ ''dQw4w9WgXcQ'' @ ''?t=1'') j"
    by (rule all_below)
  have b: "length ''dQw4w9WgXcQ'' = 11" by simp
  have c: "list_all is_id_char ''dQw4w9WgXcQ''" by code_simp
  have d: "list_all (\<lambda>j. \<not> pattern_at ''not a link'' j) [0..<length ''not a link'']"
    by code_simp
  then have d': "\<forall>j<length ''not a link''. \<not> pattern_at ''not a link'' j"
    by (rule all_below)
  have e: "\<forall>j<length ([] :: string). \<not> pattern_at [] j" by simp
  from extract_video_id_leftmost [of "''/''" "''dQw4w9WgXcQ''" "''https://youtu.be''" "''?t=1''" "''not a link''"]
    a' b c d'
  have "extract_video_id (''https://youtu.be'' @ ''/'' @ ''dQw4w9WgXcQ'' @ ''?t=1'') = Some ''dQw4w9WgXcQ''"
    and "extract_video_id ''not a link'' = None"
    by blast+
  moreover from extract_video_id_leftmost [of "''/''" "''dQw4w9WgXcQ''" "''https://youtu.be''" "''?t=1''" "[]"] e
  have "extract_video_id [] = None" by blast
  ultimately show ?thesis using a b c d by blast
qed

text \<open>
  Without the condition on earlier positions the statement fails: in this address the
  identifier follows \<^verbatim>\<open>v=\<close>, and the eleven characters after the earlier \<^verbatim>\<open>/\<close> are
  returned instead.
\<close>

theorem extract_video_id_counterexample:
  "''https://www.youtube.com/attribution_link?v=dQw4w9WgXcQ''
      = ''https://www.youtube.com/attribution_link?'' @ ''v='' @ ''dQw4w9WgXcQ'' @ []
   \<and> length ''dQw4w9WgXcQ'' = 11 \<and> list_all is_id_char ''dQw4w9WgXcQ''
   \<and> extract_video_id ''https://www.youtube.com/attribution_link?v=dQw4w9WgXcQ''
        = Some ''attribution''
   \<and> extract_video_id ''https://www.youtube.com/attribution_link?v=dQw4w9WgXcQ''
        \<noteq> Some ''dQw4w9WgXcQ''"
  by code_simp

subsection \<open>The shape of every result\<close>

text \<open>
  C10. For every input string, \<^verbatim>\<open>extract_video_id\<close> returns either \<^verbatim>\<open>None\<close> or a string
  of exactly 11 characters, each of them a digit, an ASCII letter, \<^verbatim>\<open>-\<close> or \<^verbatim>\<open>_\<close>, that
  occurs contiguously in the input.
\<close>

theorem extract_video_id_shape:
  "extract_video_id u = None \<or>
   (\<exists>g pre post. extract_video_id u = Some g \<and> length g = 11 \<and>
      list_all is_id_char g \<and> u = pre @ g @ post)"
proof (cases "extract_video_id u")
  case None
  then show ?thesis by simp
next
  case (Some g)
  then have "re_search u = Some g" by (simp add: extract_video_id_def)
  from re_search_Some [OF this] Some show ?thesis by blast
qed

section \<open>Engagement rate\<close>

subsection \<open>\<^verbatim>\<open>int(...)\<close> reads decimal numerals\<close>

lemma digit_char: "d < 10 \<Longrightarrow> is_digit (char_of (48 + d)) \<and> digit_val (char_of (48 + d)) = d"
  by (simp add: is_digit_def digit_val_def)

lemma digit_not_space: "is_digit c \<Longrightarrow> \<not> is_space c"
  by (auto simp: is_digit_def is_space_def)

lemma decimal_digits: "list_all is_digit (decimal n) \<and> decimal n \<noteq> []"
proof (induction n rule: decimal.induct)
  case (1 n)
  show ?case
  proof (cases "n < 10")
    case True
    then show ?thesis using digit_char [of n] by (simp add: decimal.simps [of n])
  next
    case False
    have "n mod 10 < 10" by simp
    from digit_char [OF this] "1" False show ?thesis
      by (simp add: decimal.simps [of n])
  qed
qed

lemma int_digits_digits:
  "list_all is_digit ds \<Longrightarrow> int_digits acc ds = Some (foldl (\<lambda>a c. a * 10 + digit_val c) acc ds)"
  by (induction ds arbitrary: acc) auto

lemma foldl_decimal:
  "foldl (\<lambda>a c. a * 10 + digit_val c) 0 (decimal n) = n"
proof (induction n rule: decimal.induct)
  case (1 n)
  show ?case
  proof (cases "n < 10")
    case True
    then show ?thesis using digit_char [of n] by (simp add: decimal.simps [of n])
  next
    case False
    have "n mod 10 < 10" by simp
    from digit_char [OF this] "1" False show ?thesis
      by (simp add: decimal.simps [of n])
  qed
qed

lemma strip_digits:
  assumes "list_all is_digit ds"
  shows "strip ds = ds"
proof (cases ds)
  case Nil
  then show ?thesis by (simp add: strip_def)
next
  case (Cons c cs)
  with assms have "\<not> is_space c" by (simp add: digit_not_space)
  then have 1: "dropWhile is_space ds = ds" using Cons by simp
  have "rev ds \<noteq> []" using Cons by simp
  then obtain d r where r: "rev ds = d # r" by (cases "rev ds") auto
  then have "d \<in> set ds" by (metis list.set_intros(1) set_rev)
  with assms have "\<not> is_space d" by (auto simp: list_all_iff digit_not_space)
  then have "dropWhile is_space (rev ds) = rev ds" using r by simp
  with 1 show ?thesis by (simp add: strip_def)
qed

lemma py_int_decimal: "py_int (decimal n) = Inr (int n)"
proof -
  obtain c cs where cs: "decimal n = c # cs" using decimal_digits [of n] by (cases "decimal n") auto
  then have c: "is_digit c" using decimal_digits [of n] by simp
  then have nosign: "c \<noteq> CHR ''-''" "c \<noteq> CHR ''+''" by (auto simp: is_digit_def)
  have "int_unsigned (decimal n) = Some n"
    using cs c int_digits_digits [of "decimal n" 0] decimal_digits [of n] foldl_decimal [of n]
    by (simp add: int_unsigned_def)
  moreover have "strip (decimal n) = decimal n" using decimal_digits by (simp add: strip_digits)
  ultimately show ?thesis using cs nosign by (simp add: py_int_def)
qed

subsection \<open>The contract of the calculator\<close>

text \<open>
  C1. Given the three counters, the engagement-rate calculator returns
  (likes + comments) / views when views > 0 and exactly 0 when views = 0 (no division
  is evaluated then): for \<^verbatim>\<open>calc_engagement_rate\<close> whenever its three conversions
  \<^verbatim>\<open>int(stats.get(key, 0))\<close> give the counters, in particular for all non-negative counters
  written as decimal numerals, and for the expression of \<^verbatim>\<open>yt_streamlit.py\<close>.
\<close>

theorem engagement_rate_contract:
  "(stat_int stats ''viewCount'' = Inr v \<and> stat_int stats ''likeCount'' = Inr l
      \<and> stat_int stats ''commentCount'' = Inr c
     \<longrightarrow> calc_engagement_rate stats
          = Inr (if 0 < v then (real_of_int l + real_of_int c) / real_of_int v else 0))
   \<and> calc_engagement_rate
        (map_of [(''viewCount'', decimal n), (''likeCount'', decimal p), (''commentCount'', decimal q)])
        = Inr (if 0 < n then (real p + real q) / real n else 0)
   \<and> derived_engagement_rate v l c
        = (if 0 < v then (real_of_int l + real_of_int c) / real_of_int v else 0)"
proof (intro conjI impI)
  assume "stat_int stats ''viewCount'' = Inr v \<and> stat_int stats ''likeCount'' = Inr l
      \<and> stat_int stats ''commentCount'' = Inr c"
  then show "calc_engagement_rate stats
          = Inr (if 0 < v then (real_of_int l + real_of_int c) / real_of_int v else 0)"
    by (simp add: calc_engagement_rate_def)
next
  let ?S = "map_of [(''viewCount'', decimal n), (''likeCount'', decimal p), (''commentCount'', decimal q)]"
  have "stat_int ?S ''viewCount'' = Inr (int n)" "stat_int ?S ''likeCount'' = Inr (int p)"
    "stat_int ?S ''commentCount'' = Inr (int q)"
    by (simp_all add: stat_int_def py_int_decimal)
  then show "calc_engagement_rate ?S = Inr (if 0 < n then (real p + real q) / real n else 0)"
    by (simp add: calc_engagement_rate_def)
next
  show "derived_engagement_rate v l c
        = (if 0 < v then (real_of_int l + real_of_int c) / real_of_int v else 0)"
    by (simp add: derived_engagement_rate_def)
qed

text \<open>
  The scenario views = 0, likes = 10, comments = 5, and a video with 200 views, 10 likes
  and no comment count.
\<close>

theorem engagement_rate_contract_witness:
  "stat_int (map_of [(''viewCount'', ''0''), (''likeCount'', ''10''), (''commentCount'', ''5'')])
      ''viewCount'' = Inr 0
   \<and> stat_int (map_of [(''viewCount'', ''0''), (''likeCount'', ''10''), (''commentCount'', ''5'')])
      ''likeCount'' = Inr 10
   \<and> stat_int (map_of [(''viewCount'', ''0''), (''likeCount'', ''10''), (''commentCount'', ''5'')])
      ''commentCount'' = Inr 5
   \<and> calc_engagement_rate
        (map_of [(''viewCount'', ''0''), (''likeCount'', ''10''), (''commentCount'', ''5'')]) = Inr 0
   \<and> derived_engagement_rate 0 10 5 = 0
   \<and> stat_int (map_of [(''viewCount'', ''200''), (''likeCount'', ''10'')]) ''viewCount'' = Inr 200
   \<and> stat_int (map_of [(''viewCount'', ''200''), (''likeCount'', ''10'')]) ''likeCount'' = Inr 10
   \<and> stat_int (map_of [(''viewCount'', ''200''), (''likeCount'', ''10'')]) ''commentCount'' = Inr 0
   \<and> calc_engagement_rate (map_of [(''viewCount'', ''200''), (''likeCount'', ''10'')]) = Inr (1 / 20)
   \<and> derived_engagement_rate 200 10 0 = 1 / 20"
proof -
  let ?S = "map_of [(''viewCount'', ''0''), (''likeCount'', ''10''), (''commentCount'', ''5'')]"
  let ?T = "map_of [(''viewCount'', ''200''), (''likeCount'', ''10'')]"
  have s: "stat_int ?S ''viewCount'' = Inr 0" "stat_int ?S ''likeCount'' = Inr 10"
    "stat_int ?S ''commentCount'' = Inr 5"
    by code_simp+
  have t: "stat_int ?T ''viewCount'' = Inr 200" "stat_int ?T ''likeCount'' = Inr 10"
    "stat_int ?T ''commentCount'' = Inr 0"
    by code_simp+
  from engagement_rate_contract [of ?S 0 10 5] s
  have s': "calc_engagement_rate ?S = Inr 0" "derived_engagement_rate 0 10 5 = 0"
    by simp_all
  from engagement_rate_contract [of ?T 200 10 0] t
  have t': "calc_engagement_rate ?T = Inr (1 / 20)" "derived_engagement_rate 200 10 0 = 1 / 20"
    by simp_all
  from s t s' t' show ?thesis by blast
qed

subsection \<open>The engagement rate of a manual submission\<close>

text \<open>
  C2. In \<^verbatim>\<open>yt_streamlit.py\<close> the engagement rate of the row handed to the predictor is
  recomputed from the submitted counters: (likes + comments) / views, and 0 when views
  is not positive. In the manual form of \<^verbatim>\<open>yt_streamlit1.py\<close> the engagement rate of the
  record handed to the predictor is the value of the form's own engagement-rate field,
  whatever the counters are.
\<close>

theorem manual_engagement_rate:
  "engagement_rate (basic_data b)
      = (if 0 < b_views b
         then (real_of_int (b_likes b) + real_of_int (b_comments b)) / real_of_int (b_views b)
         else 0)
   \<and> basic_script predictor (b\<lparr>b_predict := True\<rparr>)
        = [Success_revenue (predictor (basic_data b))]
   \<and> engagement_rate (manual_data inp) = in_engagement_rate inp
   \<and> manual_mode predictor (inp\<lparr>submit_manual := True\<rparr>)
        = [Success_revenue (predictor (manual_data inp))]"
  by (simp add: basic_data_def basic_script_def manual_data_def manual_mode_def
      derived_engagement_rate_def)

text \<open>
  A submission that the widgets of \<^verbatim>\<open>yt_streamlit1.py\<close> allow, with counters whose ratio
  is 3/20 and an engagement rate of 0 in the record.
\<close>

theorem manual_engagement_rate_counterexample:
  "manual_input_ok manual_example
   \<and> submit_manual manual_example
   \<and> engagement_rate (manual_data manual_example) = 0
   \<and> 0 < views (manual_data manual_example)
   \<and> (real_of_int (likes (manual_data manual_example))
          + real_of_int (comments (manual_data manual_example)))
        / real_of_int (views (manual_data manual_example)) = 3 / 20
   \<and> engagement_rate (manual_data manual_example)
        \<noteq> (real_of_int (likes (manual_data manual_example))
              + real_of_int (comments (manual_data manual_example)))
            / real_of_int (views (manual_data manual_example))"
  by (simp add: manual_example_def manual_input_ok_def manual_data_def)

section \<open>Duration normalization\<close>

subsection \<open>Auxiliary facts\<close>

lemma designator_examples:
  "designator_fields ''PT5M30S'' = Some (False, (0, 0), (0, 0), (0, 0), (5, 0), (30, 0))"
  "designator_fields ''-PT5M30S'' = Some (True, (0, 0), (0, 0), (0, 0), (5, 0), (30, 0))"
  "designator_fields ''PT1.5S'' = Some (False, (0, 0), (0, 0), (0, 0), (0, 0), (15, 1))"
  "designator_fields ''P1W2DT3H'' = Some (False, (1, 0), (2, 0), (3, 0), (0, 0), (0, 0))"
  "designator_fields ''garbage'' = None"
  "designator_fields [] = None"
  by code_simp+

lemmas duration_eval = parse_duration_def isodate_total_seconds_def
  timedelta_microseconds_def component_value_def round_half_even_def

lemma parse_duration_example: "parse_duration parse_datetime ''PT5M30S'' = 11 / 2"
  by (simp add: duration_eval designator_examples)

lemma round_half_even_nonneg: "0 \<le> x \<Longrightarrow> 0 \<le> round_half_even x"
proof -
  assume "0 \<le> x"
  then have "0 \<le> \<lfloor>x\<rfloor>" by simp
  then show ?thesis by (simp add: round_half_even_def Let_def)
qed

lemma component_value_nonneg: "0 \<le> component_value n"
  by (simp add: component_value_def)

lemma timedelta_microseconds_nonneg: "0 \<le> timedelta_microseconds comps"
proof -
  obtain w d h m s where c: "comps = (w, d, h, m, s)" by (cases comps) auto
  have "0 \<le> (component_value w * 604800 + component_value d * 86400
             + component_value h * 3600 + component_value m * 60
             + component_value s) * 1000000"
    using component_value_nonneg [of w] component_value_nonneg [of d]
      component_value_nonneg [of h] component_value_nonneg [of m]
      component_value_nonneg [of s]
    by simp
  then show ?thesis unfolding c timedelta_microseconds_def prod.case
    by (rule round_half_even_nonneg)
qed

lemma take1_butlast: "take 1 (butlast s) = [c] \<Longrightarrow> take 1 s = [c]"
  by (cases s) (auto split: if_splits)

lemma designator_fields_sign:
  assumes "designator_fields s = Some (neg, comps)" "take 1 s \<noteq> ''-''"
  shows "\<not> neg"
proof -
  let ?s1 = "if s \<noteq> [] \<and> last s = CHR 0x0A then butlast s else s"
  from assms(1) have "neg = (take 1 ?s1 = ''-'')"
    by (auto simp: designator_fields_def Let_def split: option.splits if_splits)
  moreover have "take 1 ?s1 \<noteq> ''-''"
    using assms(2) take1_butlast [of s "CHR ''-''"] by auto
  ultimately show ?thesis by simp
qed

lemma isodate_unsigned_nonneg:
  assumes "take 1 s \<noteq> ''-''" "isodate_total_seconds parse_datetime s = Inr secs"
  shows "0 \<le> secs"
proof (cases "designator_fields s")
  case None
  with assms(2) show ?thesis
    by (auto simp: isodate_total_seconds_def split: if_splits sum.splits)
next
  case (Some f)
  obtain neg comps where f: "f = (neg, comps)" by (cases f)
  with Some assms(1) designator_fields_sign have "\<not> neg" by blast
  with Some f assms(2) timedelta_microseconds_nonneg [of comps] show ?thesis
    by (auto simp: isodate_total_seconds_def Let_def split: if_splits)
qed

lemma parse_duration_unsigned:
  assumes "take 1 s \<noteq> ''-''"
  shows "0 \<le> parse_duration parse_datetime s"
proof (cases "isodate_total_seconds parse_datetime s")
  case (Inl e)
  then show ?thesis by (simp add: parse_duration_def)
next
  case (Inr secs)
  with isodate_unsigned_nonneg [OF assms Inr] show ?thesis by (simp add: parse_duration_def)
qed

lemma overflow_designator:
  "designator_fields ''P1000000000D''
     = Some (False, (0, 0), (1000000000, 0), (0, 0), (0, 0), (0, 0))"
  by (simp add: designator_fields_def designator_body_def take_field_def dec_val_def
      is_digit_def digit_val_def)

lemma isodate_examples:
  "isodate_total_seconds parse_datetime ''garbage'' = Inl ISO8601Error"
  "isodate_total_seconds parse_datetime [] = Inl ISO8601Error"
  "isodate_total_seconds parse_datetime ''P1000000000D'' = Inl OverflowError"
  "isodate_total_seconds parse_datetime ''PT1.5S'' = Inr (3 / 2)"
  "isodate_total_seconds parse_datetime ''P1W2DT3H'' = Inr 788400"
  "isodate_total_seconds parse_datetime ''-PT5M30S'' = Inr (- 330)"
  by (simp_all add: duration_eval designator_examples overflow_designator)

subsection \<open>Minutes of a duration\<close>

text \<open>
  C4. \<^verbatim>\<open>parse_duration\<close> returns a number of minutes for every input string: 0 when
  the package raises, its total seconds divided by 60 otherwise. The result is
  non-negative for every string that does not start with \<^verbatim>\<open>-\<close>, whatever
  \<^verbatim>\<open>parse_datetime\<close> returns. \<^verbatim>\<open>PT5M30S\<close> gives 5.5 minutes.
\<close>

theorem parse_duration_total:
  "(isodate_total_seconds parse_datetime s = Inl e \<longrightarrow> parse_duration parse_datetime s = 0)
   \<and> (isodate_total_seconds parse_datetime s = Inr secs
        \<longrightarrow> parse_duration parse_datetime s = secs / 60)
   \<and> (take 1 s \<noteq> ''-'' \<longrightarrow> 0 \<le> parse_duration parse_datetime s)
   \<and> parse_duration parse_datetime ''PT5M30S'' = 11 / 2"
proof (intro conjI impI)
  assume "isodate_total_seconds parse_datetime s = Inl e"
  then show "parse_duration parse_datetime s = 0" by (simp add: parse_duration_def)
next
  assume "isodate_total_seconds parse_datetime s = Inr secs"
  then show "parse_duration parse_datetime s = secs / 60" by (simp add: parse_duration_def)
next
  assume "take 1 s \<noteq> ''-''"
  then show "0 \<le> parse_duration parse_datetime s" by (rule parse_duration_unsigned)
next
  show "parse_duration parse_datetime ''PT5M30S'' = 11 / 2" by (rule parse_duration_example)
qed

text \<open>
  Garbage, the empty string, a duration beyond the range of \<^verbatim>\<open>timedelta\<close>, a duration
  with a fraction, and a duration with weeks, days and hours.
\<close>

theorem parse_duration_total_witness:
  "isodate_total_seconds no_datetime ''garbage'' = Inl ISO8601Error
   \<and> parse_duration no_datetime ''garbage'' = 0
   \<and> isodate_total_seconds no_datetime [] = Inl ISO8601Error
   \<and> parse_duration no_datetime [] = 0
   \<and> isodate_total_seconds no_datetime ''P1000000000D'' = Inl OverflowError
   \<and> parse_duration no_datetime ''P1000000000D'' = 0
   \<and> isodate_total_seconds no_datetime ''PT1.5S'' = Inr (3 / 2)
   \<and> parse_duration no_datetime ''PT1.5S'' = 1 / 40
   \<and> isodate_total_seconds no_datetime ''P1W2DT3H'' = Inr 788400
   \<and> parse_duration no_datetime ''P1W2DT3H'' = 13140
   \<and> take 1 ''PT1.5S'' \<noteq> ''-''
   \<and> 0 \<le> parse_duration no_datetime ''PT1.5S''
   \<and> take 1 ''garbage'' \<noteq> ''-''
   \<and> 0 \<le> parse_duration no_datetime ''garbage''"
proof -
  note a = isodate_examples [of no_datetime]
  have c: "take 1 ''PT1.5S'' \<noteq> ''-''" "take 1 ''garbage'' \<noteq> ''-''" by simp_all
  from parse_duration_total [of no_datetime "''garbage''" ISO8601Error] a c
  have 1: "parse_duration no_datetime ''garbage'' = 0"
    "0 \<le> parse_duration no_datetime ''garbage''"
    by blast+
  from parse_duration_total [of no_datetime "[]" ISO8601Error] a
  have 2: "parse_duration no_datetime [] = 0" by blast
  from parse_duration_total [of no_datetime "''P1000000000D''" OverflowError] a
  have 3: "parse_duration no_datetime ''P1000000000D'' = 0" by blast
  from parse_duration_total [of no_datetime "''P1W2DT3H''" _ 788400] a
  have 4: "parse_duration no_datetime ''P1W2DT3H'' = 788400 / 60" by blast
  from parse_duration_total [of no_datetime "''PT1.5S''" _ "3 / 2"] a c
  have 5: "parse_duration no_datetime ''PT1.5S'' = (3 / 2) / 60"
    "0 \<le> parse_duration no_datetime ''PT1.5S''"
    by blast+
  from a c 1 2 3 4 5 show ?thesis by simp
qed

text \<open>
  The package accepts a sign before \<^verbatim>\<open>P\<close> and negates the duration after \<^verbatim>\<open>-\<close>: the
  result is a negative number of minutes.
\<close>

theorem parse_duration_total_counterexample:
  "designator_fields ''-PT5M30S'' = Some (True, (0, 0), (0, 0), (0, 0), (5, 0), (30, 0))
   \<and> isodate_total_seconds no_datetime ''-PT5M30S'' = Inr (- 330)
   \<and> parse_duration no_datetime ''-PT5M30S'' = - (11 / 2)
   \<and> parse_duration no_datetime ''-PT5M30S'' < 0"
  by (simp add: parse_duration_def isodate_examples designator_examples)

section \<open>Category translation\<close>

text \<open>
  C5. Category translation is total on strings and lands in the six-category vocabulary:
  the nine known codes map as the table says, every other code maps to Entertainment;
  \<^verbatim>\<open>"20"\<close> gives Gaming and \<^verbatim>\<open>"99"\<close> gives Entertainment.
\<close>

theorem translate_category_total:
  "translate_category c \<in> {''Gaming'', ''Education'', ''Tech'', ''Entertainment'', ''Lifestyle'', ''Music''}
   \<and> (c \<notin> {''1'', ''2'', ''10'', ''20'', ''22'', ''23'', ''24'', ''27'', ''28''}
        \<longrightarrow> translate_category c = ''Entertainment'')
   \<and> translate_category ''1'' = ''Entertainment''
   \<and> translate_category ''2'' = ''Tech''
   \<and> translate_category ''10'' = ''Music''
   \<and> translate_category ''20'' = ''Gaming''
   \<and> translate_category ''22'' = ''Lifestyle''
   \<and> translate_category ''23'' = ''Entertainment''
   \<and> translate_category ''24'' = ''Entertainment''
   \<and> translate_category ''27'' = ''Education''
   \<and> translate_category ''28'' = ''Tech''
   \<and> translate_category ''99'' = ''Entertainment''"
  by (simp add: translate_category_def category_map_def)

text \<open>The unknown code \<^verbatim>\<open>"99"\<close>.\<close>

theorem translate_category_total_witness:
  "''99'' \<notin> {''1'', ''2'', ''10'', ''20'', ''22'', ''23'', ''24'', ''27'', ''28''}
   \<and> translate_category ''99'' = ''Entertainment''
   \<and> translate_category ''99'' \<in> {''Gaming'', ''Education'', ''Tech'', ''Entertainment'', ''Lifestyle'', ''Music''}"
proof -
  have "''99'' \<notin> {''1'', ''2'', ''10'', ''20'', ''22'', ''23'', ''24'', ''27'', ''28''}" by simp
  with translate_category_total [of "''99''"] show ?thesis by blast
qed

section \<open>The remote statistics lookup\<close>

subsection \<open>Auxiliary facts\<close>

lemma bind_err_Inr:
  "bind_err m f = Inr y \<longleftrightarrow> (\<exists>x. m = Inr x \<and> f x = Inr y)"
  by (cases m) (simp_all add: bind_err_def)

lemma bind_err_simps:
  "bind_err (Inr x) f = f x"
  "bind_err (Inl e) f = Inl e"
  by (simp_all add: bind_err_def)

lemma subscript_Inr: "subscript entry = Inr x \<longleftrightarrow> entry = Some x"
  by (cases entry) (simp_all add: subscript_def)

lemma calc_engagement_rate_Inr:
  assumes "stat_int stats ''viewCount'' = Inr v" "stat_int stats ''likeCount'' = Inr l"
    "stat_int stats ''commentCount'' = Inr c"
  shows "calc_engagement_rate stats
    = Inr (if 0 < v then (real_of_int l + real_of_int c) / real_of_int v else 0)"
  using assms by (simp add: calc_engagement_rate_def)

lemma channel_info_country:
  assumes "channel_info api (snippet ''channelId'') = Inr (subs, ctry)"
  shows "ctry = (case channel_country api snippet of None \<Rightarrow> ''US'' | Some c \<Rightarrow> c)"
proof (cases "snippet ''channelId''")
  case None
  with assms show ?thesis by (simp add: channel_info_def channel_country_def)
next
  case (Some cid)
  show ?thesis
  proof (cases "cid = []")
    case True
    with assms Some show ?thesis by (simp add: channel_info_def channel_country_def)
  next
    case False
    show ?thesis
    proof (cases "channels_list api cid")
      case (Inl e)
      with assms Some False show ?thesis by (simp add: channel_info_def bind_err_def)
    next
      case (Inr resp)
      show ?thesis
      proof (cases resp)
        case None
        with assms Some False Inr show ?thesis
          by (simp add: channel_info_def channel_country_def bind_err_def)
      next
        case items: (Some xs)
        show ?thesis
        proof (cases xs)
          case Nil
          with assms Some False Inr items show ?thesis
            by (simp add: channel_info_def channel_country_def bind_err_def)
        next
          case (Cons info others)
          with assms Some False Inr items
          have "bind_err (subscript (ch_statistics info)) (\<lambda>cstats.
                bind_err (stat_int cstats ''subscriberCount'') (\<lambda>subs.
                bind_err (subscript (ch_snippet info)) (\<lambda>csnippet.
                  Inr (subs, case csnippet ''country'' of None \<Rightarrow> ''US'' | Some c \<Rightarrow> c))))
                = Inr (subs, ctry)"
            by (simp add: channel_info_def bind_err_simps)
          then obtain csnippet where "ch_snippet info = Some csnippet"
            "ctry = (case csnippet ''country'' of None \<Rightarrow> ''US'' | Some c \<Rightarrow> c)"
            by (auto simp: bind_err_Inr subscript_Inr)
          with Some False Inr items Cons show ?thesis
            by (simp add: channel_country_def)
        qed
      qed
    qed
  qed
qed

lemma try_body_Some:
  assumes "try_body parse_datetime api vid = Inr (Some d)"
  shows "\<exists>video others stats snippet details duration subs ctry v l c rate.
      build_error api = None
      \<and> videos_list api vid = Inr (Some (video # others))
      \<and> v_statistics video = Some stats
      \<and> v_snippet video = Some snippet
      \<and> v_contentDetails video = Some details
      \<and> details ''duration'' = Some duration
      \<and> channel_info api (snippet ''channelId'') = Inr (subs, ctry)
      \<and> stat_int stats ''viewCount'' = Inr v
      \<and> stat_int stats ''likeCount'' = Inr l
      \<and> stat_int stats ''commentCount'' = Inr c
      \<and> calc_engagement_rate stats = Inr rate
      \<and> d = \<lparr> views = v, likes = l, comments = c,
              watch_time_minutes = real_of_int (v * 5),
              video_length_minutes = parse_duration parse_datetime duration,
              engagement_rate = rate,
              subscribers = subs,
              category = (case snippet ''categoryId'' of None \<Rightarrow> ''22'' | Some i \<Rightarrow> i),
              country = ctry,
              device = ''Mobile'' \<rparr>"
proof -
  from assms have b: "build_error api = None"
    by (auto simp: try_body_def split: option.splits)
  from assms b obtain resp where r: "videos_list api vid = Inr resp"
    by (auto simp: try_body_def bind_err_Inr)
  from assms b r obtain video others where items: "resp = Some (video # others)"
    by (auto simp: try_body_def bind_err_def split: option.splits list.splits)
  from assms b r items show ?thesis
    by (auto simp: try_body_def bind_err_Inr subscript_Inr split: prod.splits)
qed

lemma get_video_stats_Some:
  "fst (get_video_stats parse_datetime api vid) = Some d \<longleftrightarrow> try_body parse_datetime api vid = Inr (Some d)"
  by (auto simp: get_video_stats_def split: sum.splits)

lemma get_video_stats_Inl:
  "try_body parse_datetime api vid = Inl e \<Longrightarrow> get_video_stats parse_datetime api vid = (None, [Error_api e])"
  by (simp add: get_video_stats_def)

subsection \<open>The concrete service\<close>

lemma example_lookups:
  "stat_int example_statistics ''viewCount'' = Inr 200"
  "stat_int example_statistics ''likeCount'' = Inr 10"
  "stat_int example_statistics ''commentCount'' = Inr 5"
  "stat_int example_channel_statistics ''subscriberCount'' = Inr 1000"
  "example_snippet ''channelId'' = Some ''UC38IQsAvIsxxjztdMZQtwHA''"
  "example_snippet ''categoryId'' = Some ''10''"
  "example_details ''duration'' = Some ''PT5M30S''"
  "example_channel_snippet ''country'' = Some ''IN''"
  "stat_int music_statistics ''viewCount'' = Inr 40"
  "stat_int music_statistics ''likeCount'' = Inr 3"
  "stat_int music_statistics ''commentCount'' = Inr 0"
  "music_snippet ''channelId'' = None"
  "music_snippet ''categoryId'' = Some ''10''"
  "stat_int bare_statistics ''viewCount'' = Inr 0"
  "stat_int bare_statistics ''likeCount'' = Inr 10"
  "stat_int bare_statistics ''commentCount'' = Inr 5"
  by code_simp+

lemma example_api_fields:
  "build_error example_api = None"
  "videos_list example_api ''dQw4w9WgXcQ'' = Inr (Some [example_video])"
  "videos_list example_api ''musicvideo1'' = Inr (Some [music_video])"
  "videos_list example_api ''bare_video1'' = Inr (Some [bare_video])"
  "channels_list example_api ''UC38IQsAvIsxxjztdMZQtwHA'' = Inr (Some [example_channel])"
  by (simp_all add: example_api_def)

lemma example_channel_info:
  "channel_info example_api (Some ''UC38IQsAvIsxxjztdMZQtwHA'') = Inr (1000, ''IN'')"
  "channel_info example_api None = Inr (0, ''US'')"
  by (simp_all add: channel_info_def example_api_fields example_channel_def bind_err_def
      subscript_def example_lookups)

lemma example_fetch:
  "get_video_stats parse_datetime example_api ''dQw4w9WgXcQ'' = (Some example_stats, [])"
  by (simp add: get_video_stats_def try_body_def example_video_def bind_err_def subscript_def
      example_lookups example_channel_info calc_engagement_rate_def parse_duration_example
      example_stats_def example_api_fields)

lemma music_fetch:
  "get_video_stats parse_datetime example_api ''musicvideo1'' = (Some music_stats, [])"
  by (simp add: get_video_stats_def try_body_def music_video_def bind_err_def subscript_def
      example_lookups example_channel_info calc_engagement_rate_def parse_duration_example
      music_stats_def example_api_fields)

lemma bare_fetch:
  "get_video_stats parse_datetime example_api ''bare_video1'' = (Some bare_stats, [])"
  by (simp add: get_video_stats_def try_body_def bare_video_def bind_err_def subscript_def
      example_lookups example_channel_info calc_engagement_rate_def parse_duration_example
      bare_stats_def example_api_fields)

lemma quota_fetch:
  "get_video_stats parse_datetime quota_api vid = (None, [Error_api HttpError])"
  by (simp add: get_video_stats_def try_body_def quota_api_def bind_err_def)

subsection \<open>The derived field of a fetched record\<close>

text \<open>
  C9. Every record returned by \<^verbatim>\<open>get_video_stats\<close> satisfies the derived-field invariant
  on its own fields: its engagement rate is (likes + comments) / views of the views,
  likes and comments stored in the same record when views > 0, and 0 otherwise.
\<close>

theorem fetched_engagement_rate:
  "fst (get_video_stats parse_datetime api vid) = Some d
   \<longrightarrow> engagement_rate d
        = (if 0 < views d
           then (real_of_int (likes d) + real_of_int (comments d)) / real_of_int (views d)
           else 0)"
proof
  assume "fst (get_video_stats parse_datetime api vid) = Some d"
  then have "try_body parse_datetime api vid = Inr (Some d)" by (simp add: get_video_stats_Some)
  from try_body_Some [OF this] obtain stats v l c rate where
    s: "stat_int stats ''viewCount'' = Inr v" "stat_int stats ''likeCount'' = Inr l"
       "stat_int stats ''commentCount'' = Inr c"
    and r: "calc_engagement_rate stats = Inr rate"
    and d: "views d = v" "likes d = l" "comments d = c" "engagement_rate d = rate"
    by auto
  from calc_engagement_rate_Inr [OF s] r d show
    "engagement_rate d
        = (if 0 < views d
           then (real_of_int (likes d) + real_of_int (comments d)) / real_of_int (views d)
           else 0)"
    by simp
qed

text \<open>A video with 200 views, and a video whose statistics carry no view count.\<close>

theorem fetched_engagement_rate_witness:
  "fst (get_video_stats no_datetime example_api ''dQw4w9WgXcQ'') = Some example_stats
   \<and> views example_stats = 200 \<and> likes example_stats = 10 \<and> comments example_stats = 5
   \<and> engagement_rate example_stats = (10 + 5) / 200
   \<and> fst (get_video_stats no_datetime example_api ''bare_video1'') = Some bare_stats
   \<and> views bare_stats = 0 \<and> likes bare_stats = 10 \<and> comments bare_stats = 5
   \<and> engagement_rate bare_stats = 0"
proof -
  have a: "fst (get_video_stats no_datetime example_api ''dQw4w9WgXcQ'') = Some example_stats"
    by (simp add: example_fetch)
  have b: "fst (get_video_stats no_datetime example_api ''bare_video1'') = Some bare_stats"
    by (simp add: bare_fetch)
  have c: "views example_stats = 200 \<and> likes example_stats = 10 \<and> comments example_stats = 5"
    by (simp add: example_stats_def)
  have d: "views bare_stats = 0 \<and> likes bare_stats = 10 \<and> comments bare_stats = 5"
    by (simp add: bare_stats_def)
  from fetched_engagement_rate [of no_datetime example_api "''dQw4w9WgXcQ''" example_stats] a c
  have e: "engagement_rate example_stats = (10 + 5) / 200" by simp
  from fetched_engagement_rate [of no_datetime example_api "''bare_video1''" bare_stats] b d
  have f: "engagement_rate bare_stats = 0" by simp
  from a b c d e f show ?thesis by blast
qed

subsection \<open>Watch time and defaults of a fetched record\<close>

text \<open>
  C7. Every successful lookup produces a record whose watch time is the view count
  times 5; whose country is the country of the channel data when that data is complete
  and \<^verbatim>\<open>"US"\<close> otherwise; and whose category is the \<^verbatim>\<open>categoryId\<close> of the video snippet
  when the snippet has one and \<^verbatim>\<open>"22"\<close> otherwise.
\<close>

theorem fetched_record_fields:
  "get_video_stats parse_datetime api vid = (Some d, shown)
   \<longrightarrow> (\<exists>video others stats snippet.
          videos_list api vid = Inr (Some (video # others))
          \<and> v_statistics video = Some stats
          \<and> v_snippet video = Some snippet
          \<and> stat_int stats ''viewCount'' = Inr (views d)
          \<and> watch_time_minutes d = real_of_int (views d * 5)
          \<and> country d = (case channel_country api snippet of None \<Rightarrow> ''US'' | Some c \<Rightarrow> c)
          \<and> category d = (case snippet ''categoryId'' of None \<Rightarrow> ''22'' | Some i \<Rightarrow> i))"
proof
  assume "get_video_stats parse_datetime api vid = (Some d, shown)"
  then have "fst (get_video_stats parse_datetime api vid) = Some d" by simp
  then have "try_body parse_datetime api vid = Inr (Some d)" by (simp add: get_video_stats_Some)
  from try_body_Some [OF this] obtain video others stats snippet subs ctry v where
    f: "videos_list api vid = Inr (Some (video # others))"
       "v_statistics video = Some stats" "v_snippet video = Some snippet"
       "stat_int stats ''viewCount'' = Inr v"
    and ch: "channel_info api (snippet ''channelId'') = Inr (subs, ctry)"
    and d: "views d = v" "watch_time_minutes d = real_of_int (v * 5)" "country d = ctry"
       "category d = (case snippet ''categoryId'' of None \<Rightarrow> ''22'' | Some i \<Rightarrow> i)"
    by auto
  from channel_info_country [of api snippet subs ctry, OF ch] f d show
    "\<exists>video others stats snippet.
          videos_list api vid = Inr (Some (video # others))
          \<and> v_statistics video = Some stats
          \<and> v_snippet video = Some snippet
          \<and> stat_int stats ''viewCount'' = Inr (views d)
          \<and> watch_time_minutes d = real_of_int (views d * 5)
          \<and> country d = (case channel_country api snippet of None \<Rightarrow> ''US'' | Some c \<Rightarrow> c)
          \<and> category d = (case snippet ''categoryId'' of None \<Rightarrow> ''22'' | Some i \<Rightarrow> i)"
    by auto
qed

text \<open>
  The video with complete data, and the video whose snippet names neither a channel nor
  a category.
\<close>

theorem fetched_record_fields_witness:
  "get_video_stats no_datetime example_api ''dQw4w9WgXcQ'' = (Some example_stats, [])
   \<and> views example_stats = 200
   \<and> watch_time_minutes example_stats = real_of_int (views example_stats * 5)
   \<and> country example_stats = ''IN'' \<and> category example_stats = ''10''
   \<and> get_video_stats no_datetime example_api ''bare_video1'' = (Some bare_stats, [])
   \<and> watch_time_minutes bare_stats = real_of_int (views bare_stats * 5)
   \<and> country bare_stats = ''US'' \<and> category bare_stats = ''22''"
proof -
  have a: "get_video_stats no_datetime example_api ''dQw4w9WgXcQ'' = (Some example_stats, [])"
    by (rule example_fetch)
  have b: "get_video_stats no_datetime example_api ''bare_video1'' = (Some bare_stats, [])"
    by (rule bare_fetch)
  from fetched_record_fields [of no_datetime example_api "''dQw4w9WgXcQ''" example_stats "[]"] a
  have c: "watch_time_minutes example_stats = real_of_int (views example_stats * 5)" by blast
  from fetched_record_fields [of no_datetime example_api "''bare_video1''" bare_stats "[]"] b
  have d: "watch_time_minutes bare_stats = real_of_int (views bare_stats * 5)" by blast
  have e: "views example_stats = 200 \<and> country example_stats = ''IN''
      \<and> category example_stats = ''10''"
    by (simp add: example_stats_def)
  have f: "country bare_stats = ''US'' \<and> category bare_stats = ''22''"
    by (simp add: bare_stats_def)
  from a b c d e f show ?thesis by blast
qed

text \<open>
  The category does not depend on the channel data: this video names no channel, so its
  channel data is incomplete and its country is the default, and its category is the
  \<^verbatim>\<open>"10"\<close> of its snippet, not \<^verbatim>\<open>"22"\<close>.
\<close>

theorem fetched_record_fields_counterexample:
  "get_video_stats no_datetime example_api ''musicvideo1'' = (Some music_stats, [])
   \<and> videos_list example_api ''musicvideo1'' = Inr (Some [music_video])
   \<and> v_snippet music_video = Some music_snippet
   \<and> music_snippet ''channelId'' = None
   \<and> channel_country example_api music_snippet = None
   \<and> country music_stats = ''US''
   \<and> category music_stats = ''10''
   \<and> category music_stats \<noteq> ''22''"
  by (simp add: music_fetch example_api_fields music_video_def example_lookups
      channel_country_def music_stats_def)

section \<open>The link page\<close>

subsection \<open>Auxiliary facts\<close>

lemma extract_video_id_nonempty: "extract_video_id u = Some vid \<Longrightarrow> vid \<noteq> []"
  using re_search_Some [of u vid] by (auto simp: extract_video_id_def)

lemma fetch_step_failed:
  assumes "submit_link inp" "extract_video_id (url inp) = Some vid"
    "get_video_stats parse_datetime api vid = (None, shown)"
  shows "fetch_step parse_datetime api inp state = (state, Info_video_id vid # shown @ [Error_fetch_failed])"
  using assms extract_video_id_nonempty [OF assms(2)] by (simp add: fetch_step_def)

lemma fetch_step_fetched:
  assumes "submit_link inp" "extract_video_id (url inp) = Some vid"
    "get_video_stats parse_datetime api vid = (Some d, shown)"
  shows "fetch_step parse_datetime api inp state
    = (state\<lparr>video_stats := Some (d\<lparr>category := translate_category (category d)\<rparr>)\<rparr>,
       Info_video_id vid # shown @ [Success_fetched])"
  using assms extract_video_id_nonempty [OF assms(2)] by (simp add: fetch_step_def)

lemma fetch_step_keeps:
  assumes "video_stats state = Some stats"
  shows "video_stats (fst (fetch_step parse_datetime api inp state)) \<noteq> None"
  using assms
  by (auto simp: fetch_step_def split: option.splits prod.splits)

lemma customize_step_keeps:
  assumes "video_stats state \<noteq> None"
  shows "video_stats (fst (customize_step predictor inp state)) \<noteq> None"
  using assms by (auto simp: customize_step_def split: option.splits)

lemma link_mode_keeps:
  assumes "video_stats state = Some stats"
  shows "video_stats (fst (link_mode parse_datetime api predictor inp state)) \<noteq> None"
proof -
  obtain s1 n1 where f: "fetch_step parse_datetime api inp state = (s1, n1)" by (cases "fetch_step parse_datetime api inp state")
  with fetch_step_keeps [OF assms, of parse_datetime api inp] have "video_stats s1 \<noteq> None" by simp
  moreover have "fst (link_mode parse_datetime api predictor inp state) = fst (customize_step predictor inp s1)"
    using f by (simp add: link_mode_def split: prod.splits)
  ultimately show ?thesis using customize_step_keeps [of s1 predictor inp] by simp
qed

lemma click_facts:
  "submit_link fetch_click" "extract_video_id (url fetch_click) = Some ''dQw4w9WgXcQ''"
  "\<not> submit_link predict_click" "predict_button predict_click"
  "video_stats fresh_session = None" "\<not> predict_button fetch_click"
  by (simp_all add: fetch_click_def predict_click_def fresh_session_def) code_simp

lemma quota_fields:
  "build_error quota_api = None" "videos_list quota_api vid = Inl HttpError"
  by (simp_all add: quota_api_def)

lemma customize_examples:
  "customize predict_click (example_stats\<lparr>category := ''Music''\<rparr>)
     = example_stats\<lparr>category := ''Music''\<rparr>"
  "customize fetch_click (example_stats\<lparr>category := ''Music''\<rparr>)
     = example_stats\<lparr>category := ''Music''\<rparr>"
  by (simp_all add: customize_def predict_click_def fetch_click_def example_stats_def
      selectbox_def countries_def categories_def devices_def)

lemma translate_example: "translate_category (category example_stats) = ''Music''"
  by (simp add: translate_category_def category_map_def example_stats_def)

lemma fetch_run:
  "link_mode no_datetime example_api example_predictor fetch_click fresh_session
     = (\<lparr>video_stats = Some (example_stats\<lparr>category := ''Music''\<rparr>)\<rparr>,
        [Info_video_id ''dQw4w9WgXcQ'', Success_fetched,
         Show_stats (example_stats\<lparr>category := ''Music''\<rparr>)])"
proof -
  have "fetch_step no_datetime example_api fetch_click fresh_session
      = (fresh_session\<lparr>video_stats := Some (example_stats\<lparr>category := translate_category (category example_stats)\<rparr>)\<rparr>,
         Info_video_id ''dQw4w9WgXcQ'' # [] @ [Success_fetched])"
    using click_facts example_fetch by (intro fetch_step_fetched) auto
  then show ?thesis
    by (simp add: link_mode_def customize_step_def translate_example customize_examples
        fresh_session_def click_facts)
qed

lemma predict_view: "example_predictor (example_stats\<lparr>category := ''Music''\<rparr>) = 1 / 5"
  by (simp add: example_predictor_def example_stats_def)

subsection \<open>A failed lookup\<close>

text \<open>
  C6. \<^verbatim>\<open>get_video_stats\<close> returns a value on every input, and on every failure that value
  is \<^verbatim>\<open>None\<close>: when anything in its \<^verbatim>\<open>try\<close> block raises (building the service, either
  query, a missing part of the answer) it shows the error and returns \<^verbatim>\<open>None\<close>, and when
  the video is not found it returns \<^verbatim>\<open>None\<close>. The caller then shows its own error, stores
  nothing and does nothing else with the lookup: the run ends as a run without the
  submission would, and with no stored record it ends with the session state unchanged
  and the error messages only.
\<close>

theorem lookup_failure_is_no_data:
  "(try_body parse_datetime api vid = Inl e \<longrightarrow> get_video_stats parse_datetime api vid = (None, [Error_api e]))
   \<and> (build_error api = Some e \<longrightarrow> get_video_stats parse_datetime api vid = (None, [Error_api e]))
   \<and> (build_error api = None \<and> videos_list api vid = Inl e
        \<longrightarrow> get_video_stats parse_datetime api vid = (None, [Error_api e]))
   \<and> (build_error api = None \<and> videos_list api vid = Inr None
        \<longrightarrow> get_video_stats parse_datetime api vid = (None, []))
   \<and> (build_error api = None \<and> videos_list api vid = Inr (Some [])
        \<longrightarrow> get_video_stats parse_datetime api vid = (None, []))
   \<and> (build_error api = None \<and> videos_list api vid = Inr (Some (video # others))
        \<and> v_statistics video = None
        \<longrightarrow> get_video_stats parse_datetime api vid = (None, [Error_api KeyError]))
   \<and> (build_error api = None \<and> videos_list api vid = Inr (Some (video # others))
        \<and> v_statistics video = Some stats \<and> v_snippet video = Some snippet
        \<and> v_contentDetails video = Some details \<and> details ''duration'' = Some duration
        \<and> snippet ''channelId'' = Some cid \<and> cid \<noteq> [] \<and> channels_list api cid = Inl e
        \<longrightarrow> get_video_stats parse_datetime api vid = (None, [Error_api e]))
   \<and> (submit_link inp \<and> extract_video_id (url inp) = Some vid
        \<and> get_video_stats parse_datetime api vid = (None, shown)
        \<longrightarrow> fetch_step parse_datetime api inp state
              = (state, Info_video_id vid # shown @ [Error_fetch_failed])
            \<and> link_mode parse_datetime api predictor inp state
              = (fst (customize_step predictor inp state),
                 Info_video_id vid # shown @ Error_fetch_failed
                   # snd (customize_step predictor inp state))
            \<and> (video_stats state = None
                 \<longrightarrow> link_mode parse_datetime api predictor inp state
                       = (state, Info_video_id vid # shown @ [Error_fetch_failed])))"
proof (intro conjI impI)
  assume "try_body parse_datetime api vid = Inl e"
  then show "get_video_stats parse_datetime api vid = (None, [Error_api e])"
    by (rule get_video_stats_Inl)
next
  assume "build_error api = Some e"
  then show "get_video_stats parse_datetime api vid = (None, [Error_api e])"
    by (simp add: get_video_stats_def try_body_def)
next
  assume "build_error api = None \<and> videos_list api vid = Inl e"
  then show "get_video_stats parse_datetime api vid = (None, [Error_api e])"
    by (simp add: get_video_stats_def try_body_def bind_err_simps)
next
  assume "build_error api = None \<and> videos_list api vid = Inr None"
  then show "get_video_stats parse_datetime api vid = (None, [])"
    by (simp add: get_video_stats_def try_body_def bind_err_simps)
next
  assume "build_error api = None \<and> videos_list api vid = Inr (Some [])"
  then show "get_video_stats parse_datetime api vid = (None, [])"
    by (simp add: get_video_stats_def try_body_def bind_err_simps)
next
  assume "build_error api = None \<and> videos_list api vid = Inr (Some (video # others))
        \<and> v_statistics video = None"
  then show "get_video_stats parse_datetime api vid = (None, [Error_api KeyError])"
    by (simp add: get_video_stats_def try_body_def bind_err_simps subscript_def)
next
  assume "build_error api = None \<and> videos_list api vid = Inr (Some (video # others))
        \<and> v_statistics video = Some stats \<and> v_snippet video = Some snippet
        \<and> v_contentDetails video = Some details \<and> details ''duration'' = Some duration
        \<and> snippet ''channelId'' = Some cid \<and> cid \<noteq> [] \<and> channels_list api cid = Inl e"
  then show "get_video_stats parse_datetime api vid = (None, [Error_api e])"
    by (simp add: get_video_stats_def try_body_def bind_err_simps subscript_def channel_info_def)
next
  assume a: "submit_link inp \<and> extract_video_id (url inp) = Some vid
        \<and> get_video_stats parse_datetime api vid = (None, shown)"
  then show f: "fetch_step parse_datetime api inp state
      = (state, Info_video_id vid # shown @ [Error_fetch_failed])"
    by (simp add: fetch_step_failed)
  then show l: "link_mode parse_datetime api predictor inp state
      = (fst (customize_step predictor inp state),
         Info_video_id vid # shown @ Error_fetch_failed
           # snd (customize_step predictor inp state))"
    by (simp add: link_mode_def split: prod.splits)
  assume "video_stats state = None"
  then have "customize_step predictor inp state = (state, [])"
    by (simp add: customize_step_def)
  with l show "link_mode parse_datetime api predictor inp state
      = (state, Info_video_id vid # shown @ [Error_fetch_failed])"
    by simp
qed

text \<open>A refused query, and an identifier that the service does not know.\<close>

theorem lookup_failure_is_no_data_witness:
  "build_error quota_api = None
   \<and> videos_list quota_api ''dQw4w9WgXcQ'' = Inl HttpError
   \<and> get_video_stats no_datetime quota_api ''dQw4w9WgXcQ'' = (None, [Error_api HttpError])
   \<and> submit_link fetch_click
   \<and> extract_video_id (url fetch_click) = Some ''dQw4w9WgXcQ''
   \<and> video_stats fresh_session = None
   \<and> link_mode no_datetime quota_api example_predictor fetch_click fresh_session
        = (fresh_session,
           [Info_video_id ''dQw4w9WgXcQ'', Error_api HttpError, Error_fetch_failed])
   \<and> build_error example_api = None
   \<and> videos_list example_api ''aaaaaaaaaaa'' = Inr (Some [])
   \<and> get_video_stats no_datetime example_api ''aaaaaaaaaaa'' = (None, [])"
proof -
  note t = lookup_failure_is_no_data [where parse_datetime = no_datetime and api = quota_api
      and vid = "''dQw4w9WgXcQ''" and e = HttpError and inp = fetch_click
      and shown = "[Error_api HttpError]" and state = fresh_session
      and predictor = example_predictor]
  from t quota_fields have
    a: "get_video_stats no_datetime quota_api ''dQw4w9WgXcQ'' = (None, [Error_api HttpError])"
    by blast
  from t a click_facts have
    b: "link_mode no_datetime quota_api example_predictor fetch_click fresh_session
        = (fresh_session, Info_video_id ''dQw4w9WgXcQ'' # [Error_api HttpError] @ [Error_fetch_failed])"
    by blast
  have c: "build_error example_api = None" "videos_list example_api ''aaaaaaaaaaa'' = Inr (Some [])"
    by (simp_all add: example_api_def)
  from lookup_failure_is_no_data [where parse_datetime = no_datetime and api = example_api
      and vid = "''aaaaaaaaaaa''"] c
  have d: "get_video_stats no_datetime example_api ''aaaaaaaaaaa'' = (None, [])"
    by blast
  from a b c d quota_fields click_facts show ?thesis by simp
qed

subsection \<open>The stored record\<close>

text \<open>
  C8. A fetched record stays in the session state: no run of the script removes it. A
  prediction on the link page leaves in the session state the very record that was
  handed to the predictor, the stored record with the operator's country, category and
  device written into it. The record is replaced only by the next successful fetch,
  which stores the new record; the manual page does not touch it.
\<close>

theorem stored_record_is_kept:
  "(video_stats state = Some stats
      \<longrightarrow> video_stats (fst (script_run parse_datetime api predictor m state)) \<noteq> None)
   \<and> (video_stats state = Some stats \<and> \<not> submit_link inp \<and> predict_button inp
        \<longrightarrow> link_mode parse_datetime api predictor inp state
              = (state\<lparr>video_stats := Some (customize inp stats)\<rparr>,
                 [Show_stats stats, Success_revenue (predictor (customize inp stats))]))
   \<and> (submit_link inp \<and> extract_video_id (url inp) = Some vid
        \<and> get_video_stats parse_datetime api vid = (Some d, shown)
        \<longrightarrow> video_stats (fst (fetch_step parse_datetime api inp state))
              = Some (d\<lparr>category := translate_category (category d)\<rparr>))
   \<and> video_stats (fst (script_run parse_datetime api predictor (Manual_Input minp) state))
        = video_stats state"
proof (intro conjI impI)
  assume s: "video_stats state = Some stats"
  show "video_stats (fst (script_run parse_datetime api predictor m state)) \<noteq> None"
  proof (cases m)
    case (Manual_Input x)
    with s show ?thesis by (simp add: script_run_def)
  next
    case (YouTube_Link_Input x)
    with link_mode_keeps [OF s, of parse_datetime api predictor x] show ?thesis
      by (simp add: script_run_def)
  qed
next
  assume "video_stats state = Some stats \<and> \<not> submit_link inp \<and> predict_button inp"
  then show "link_mode parse_datetime api predictor inp state
      = (state\<lparr>video_stats := Some (customize inp stats)\<rparr>,
         [Show_stats stats, Success_revenue (predictor (customize inp stats))])"
    by (simp add: link_mode_def fetch_step_def customize_step_def)
next
  assume "submit_link inp \<and> extract_video_id (url inp) = Some vid
        \<and> get_video_stats parse_datetime api vid = (Some d, shown)"
  then show "video_stats (fst (fetch_step parse_datetime api inp state))
      = Some (d\<lparr>category := translate_category (category d)\<rparr>)"
    by (simp add: fetch_step_fetched)
next
  show "video_stats (fst (script_run parse_datetime api predictor (Manual_Input minp) state))
        = video_stats state"
    by (simp add: script_run_def)
qed

text \<open>
  A prediction on a stored record, and the fetch that stored it.
\<close>

theorem stored_record_is_kept_witness:
  "video_stats \<lparr>video_stats = Some (example_stats\<lparr>category := ''Music''\<rparr>)\<rparr>
      = Some (example_stats\<lparr>category := ''Music''\<rparr>)
   \<and> \<not> submit_link predict_click \<and> predict_button predict_click
   \<and> link_mode no_datetime example_api example_predictor predict_click
        \<lparr>video_stats = Some (example_stats\<lparr>category := ''Music''\<rparr>)\<rparr>
      = (\<lparr>video_stats = Some (example_stats\<lparr>category := ''Music''\<rparr>)\<rparr>,
         [Show_stats (example_stats\<lparr>category := ''Music''\<rparr>), Success_revenue (1 / 5)])
   \<and> submit_link fetch_click
   \<and> extract_video_id (url fetch_click) = Some ''dQw4w9WgXcQ''
   \<and> get_video_stats no_datetime example_api ''dQw4w9WgXcQ'' = (Some example_stats, [])
   \<and> video_stats (fst (fetch_step no_datetime example_api fetch_click fresh_session))
      = Some (example_stats\<lparr>category := ''Music''\<rparr>)"
proof -
  let ?kept = "example_stats\<lparr>category := ''Music''\<rparr>"
  have s: "video_stats \<lparr>video_stats = Some ?kept\<rparr> = Some ?kept" by simp
  note t = stored_record_is_kept [where state = "\<lparr>video_stats = Some ?kept\<rparr>"
      and stats = ?kept and inp = predict_click and parse_datetime = no_datetime
      and api = example_api and predictor = example_predictor]
  from t s click_facts have
    a: "link_mode no_datetime example_api example_predictor predict_click
          \<lparr>video_stats = Some ?kept\<rparr>
        = (\<lparr>video_stats = Some ?kept\<rparr>\<lparr>video_stats := Some (customize predict_click ?kept)\<rparr>,
           [Show_stats ?kept, Success_revenue (example_predictor (customize predict_click ?kept))])"
    by blast
  note u = stored_record_is_kept [where inp = fetch_click and parse_datetime = no_datetime
      and api = example_api and vid = "''dQw4w9WgXcQ''" and d = example_stats
      and shown = "[]" and state = fresh_session]
  from u click_facts example_fetch [of no_datetime] have
    b: "video_stats (fst (fetch_step no_datetime example_api fetch_click fresh_session))
        = Some (example_stats\<lparr>category := translate_category (category example_stats)\<rparr>)"
    by blast
  from a b s click_facts example_fetch [of no_datetime] show ?thesis
    by (simp add: customize_examples predict_view translate_example)
qed

text \<open>
  Two runs from a fresh session, a fetch and then a prediction: after the prediction the
  record is still stored.
\<close>

theorem stored_record_is_kept_counterexample:
  "link_mode no_datetime example_api example_predictor fetch_click fresh_session
     = (\<lparr>video_stats = Some (example_stats\<lparr>category := ''Music''\<rparr>)\<rparr>,
        [Info_video_id ''dQw4w9WgXcQ'', Success_fetched,
         Show_stats (example_stats\<lparr>category := ''Music''\<rparr>)])
   \<and> link_mode no_datetime example_api example_predictor predict_click
        \<lparr>video_stats = Some (example_stats\<lparr>category := ''Music''\<rparr>)\<rparr>
     = (\<lparr>video_stats = Some (example_stats\<lparr>category := ''Music''\<rparr>)\<rparr>,
        [Show_stats (example_stats\<lparr>category := ''Music''\<rparr>), Success_revenue (1 / 5)])
   \<and> video_stats (fst (link_mode no_datetime example_api example_predictor predict_click
        (fst (link_mode no_datetime example_api example_predictor fetch_click fresh_session))))
     = Some (example_stats\<lparr>category := ''Music''\<rparr>)
   \<and> video_stats (fst (link_mode no_datetime example_api example_predictor predict_click
        (fst (link_mode no_datetime example_api example_predictor fetch_click fresh_session))))
     \<noteq> None"
proof -
  have "link_mode no_datetime example_api example_predictor predict_click
        \<lparr>video_stats = Some (example_stats\<lparr>category := ''Music''\<rparr>)\<rparr>
     = (\<lparr>video_stats = Some (example_stats\<lparr>category := ''Music''\<rparr>)\<rparr>,
        [Show_stats (example_stats\<lparr>category := ''Music''\<rparr>), Success_revenue (1 / 5)])"
    by (simp add: link_mode_def fetch_step_def customize_step_def click_facts
        customize_examples predict_view)
  with fetch_run show ?thesis by simp
qed

end
